theory Spec2Isabelle
  imports Main
begin

section \<open>The design model read by the gRPC service compiler\<close>

text \<open>
  The compiler of \<^verbatim>\<open>grpc/codegen/service_data.go\<close> reads the design expressions of
  package \<^verbatim>\<open>expr\<close>. The declarations of that package are not part of the sources at
  hand, so the data types below are the ones the code's own type switch
  (\<^verbatim>\<open>collectMessages\<close>) and field accesses spell out: a data type is a primitive, the
  value \<^verbatim>\<open>expr.Empty\<close>, a user type, an object (a slice of named attributes), an array
  or a map, and an attribute carries a type and a description.

  User types are pointers in Go and may refer to themselves or to each other. They are
  modelled by an explicit store: \<open>UserType r\<close> is the address \<open>r\<close> of a
  \<open>UserTypeExpr\<close> in a list, the store. Two addresses may hold types of the same name.
\<close>

datatype Kind =
    BooleanKind | IntKind | Int32Kind | Int64Kind | UIntKind | UInt32Kind | UInt64Kind
  | Float32Kind | Float64Kind | StringKind | BytesKind | ArrayKind | ObjectKind | MapKind
  | UserTypeKind | ResultTypeKind | AnyKind

datatype DataType =
    Primitive Kind
  | Empty
  | UserType nat
  | Object "(string \<times> AttributeExpr) list"
  | Array AttributeExpr
  | Map AttributeExpr AttributeExpr
and AttributeExpr =
    AttributeExpr (att_Type: DataType) (att_Description: string)

record UserTypeExpr =
  ut_TypeName :: string
  ut_Attribute :: AttributeExpr

type_synonym store = "UserTypeExpr list"

text \<open>
  Reading the user type at an address. Go pointers do not dangle; an address outside the
  store has no counterpart in the program and reads as \<open>None\<close>.
\<close>

definition userType :: "store \<Rightarrow> nat \<Rightarrow> UserTypeExpr option" where
  "userType st r = (if r < length st then Some (st ! r) else None)"

text \<open>
  A mapped attribute is walked by \<^verbatim>\<open>codegen.WalkMappedAttr\<close>, which hands the callback
  the attribute name, the mapped element name, the required flag and the attribute of each
  field in turn. The model is the list of these tuples.
\<close>

type_synonym MappedAttributeExpr = "(string \<times> string \<times> bool \<times> AttributeExpr) list"

datatype StreamKind =
  NoStreamKind | ClientStreamKind | ServerStreamKind | BidirectionalStreamKind

record MethodExpr =
  me_Payload :: AttributeExpr
  me_Result :: AttributeExpr
  me_StreamingPayload :: AttributeExpr
  me_Stream :: StreamKind

record SchemeExpr =
  se_SchemeName :: string
  se_In :: string

record GRPCResponseExpr =
  rs_StatusCode :: int
  rs_Description :: string
  rs_Message :: AttributeExpr
  rs_Headers :: MappedAttributeExpr
  rs_Trailers :: MappedAttributeExpr

record GRPCErrorExpr =
  ge_Name :: string
  ge_ErrorAttribute :: AttributeExpr
  ge_Response :: GRPCResponseExpr

record GRPCEndpointExpr =
  ep_Name :: string
  ep_MethodExpr :: MethodExpr
  ep_Request :: AttributeExpr
  ep_StreamingRequest :: AttributeExpr
  ep_Response :: GRPCResponseExpr
  ep_Metadata :: MappedAttributeExpr
  ep_Requirements :: "SchemeExpr list list"
  ep_GRPCErrors :: "GRPCErrorExpr list"

record GRPCServiceExpr =
  gs_Name :: string
  gs_GRPCEndpoints :: "GRPCEndpointExpr list"

section \<open>The service data of package service\<close>

text \<open>
  \<^verbatim>\<open>service.Data\<close>, \<^verbatim>\<open>service.MethodData\<close>, \<^verbatim>\<open>service.StreamData\<close>,
  \<^verbatim>\<open>service.UserTypeData\<close> and \<^verbatim>\<open>service.SchemeData\<close> with the fields the compiler
  reads or writes. A name scope (\<^verbatim>\<open>codegen.NameScope\<close>) is a value of the type
  parameter \<open>'sc\<close>.
\<close>

record StreamDataS =
  ss_VarName :: string
  ss_Interface :: string
  ss_SendName :: string
  ss_RecvName :: string
  ss_MustClose :: bool

record ViewedResultTypeData =
  vr_FullRef :: string
  vr_Type :: DataType

record SchemeData =
  sch_SchemeName :: string
  sch_In :: string

record MethodData =
  md_Name :: string
  md_VarName :: string
  md_ViewedResult :: "ViewedResultTypeData option"
  md_ServerStream :: "StreamDataS option"
  md_ClientStream :: "StreamDataS option"
  md_Requirements :: "SchemeData list"

record 'sc Data =
  svc_Name :: string
  svc_Description :: string
  svc_PkgName :: string
  svc_StructName :: string
  svc_ViewsPkg :: string
  svc_Scope :: 'sc
  svc_ViewScope :: 'sc

record UserTypeData =
  utd_Name :: string
  utd_VarName :: string
  utd_Description :: string
  utd_Def :: string
  utd_Ref :: string
  utd_Type :: nat

section \<open>The transport data the compiler builds\<close>

text \<open>
  The structs of \<^verbatim>\<open>service_data.go\<close>. Left out of the records: the \<^verbatim>\<open>Description\<close>,
  \<^verbatim>\<open>SendDesc\<close> and \<^verbatim>\<open>RecvDesc\<close> texts that \<^verbatim>\<open>fmt.Sprintf\<close> formats, and the
  \<^verbatim>\<open>Example\<close> values drawn from the design's random generator. The back pointer
  \<^verbatim>\<open>StreamData.Endpoint\<close> is kept as the method data of the endpoint it points to.
  A transform helper (\<^verbatim>\<open>codegen.TransformFunctionData\<close>) is kept as its text.
\<close>

type_synonym TransformFunctionData = string

record MetadataData =
  mt_Name :: string
  mt_AttributeName :: string
  mt_Description :: string
  mt_FieldName :: string
  mt_VarName :: string
  mt_TypeName :: string
  mt_TypeRef :: string
  mt_Required :: bool
  mt_Pointer :: bool
  mt_StringSlice :: bool
  mt_Slice :: bool
  mt_MapStringSlice :: bool
  mt_Map :: bool
  mt_Type :: DataType
  mt_Validate :: string
  mt_DefaultValue :: "string option"

record ValidationData =
  vd_Name :: string
  vd_Def :: string
  vd_ArgName :: string
  vd_SrcName :: string
  vd_SrcRef :: string

record InitArgData =
  ia_Name :: string
  ia_Ref :: string
  ia_FieldName :: string
  ia_TypeName :: string
  ia_TypeRef :: string
  ia_Pointer :: bool
  ia_Required :: bool
  ia_DefaultValue :: "string option"
  ia_Validate :: string

record InitData =
  in_Name :: string
  in_Args :: "InitArgData list"
  in_ReturnVarName :: string
  in_ReturnTypeRef :: string
  in_ReturnIsStruct :: bool
  in_Code :: string

record ConvertData =
  cv_SrcName :: string
  cv_SrcRef :: string
  cv_TgtName :: string
  cv_TgtRef :: string
  cv_Init :: "InitData option"
  cv_Validation :: "ValidationData option"

record StreamData =
  sm_VarName :: string
  sm_Type :: string
  sm_ServiceInterface :: string
  sm_Interface :: string
  sm_Endpoint :: MethodData
  sm_SendName :: string
  sm_SendRef :: string
  sm_SendConvert :: "ConvertData option"
  sm_RecvConvert :: "ConvertData option"
  sm_RecvName :: string
  sm_RecvRef :: string
  sm_MustClose :: bool

record RequestData =
  rq_Description :: string
  rq_Message :: "UserTypeData option"
  rq_Metadata :: "MetadataData list"
  rq_ServerConvert :: "ConvertData option"
  rq_ClientConvert :: "ConvertData option"
  rq_CLIArgs :: "InitArgData list"

record ResponseData =
  rp_StatusCode :: string
  rp_Description :: string
  rp_Message :: "UserTypeData option"
  rp_Headers :: "MetadataData list"
  rp_Trailers :: "MetadataData list"
  rp_ServerConvert :: "ConvertData option"
  rp_ClientConvert :: "ConvertData option"

record ErrorData =
  er_StatusCode :: string
  er_Name :: string
  er_Ref :: string
  er_Response :: "ResponseData option"

record EndpointData =
  ed_ServiceName :: string
  ed_PkgName :: string
  ed_ServicePkgName :: string
  ed_Method :: MethodData
  ed_PayloadRef :: string
  ed_ResultRef :: string
  ed_ViewedResultRef :: string
  ed_Request :: RequestData
  ed_Response :: ResponseData
  ed_MetadataSchemes :: "SchemeData list"
  ed_MessageSchemes :: "SchemeData list"
  ed_Errors :: "ErrorData list"
  ed_ServerStruct :: string
  ed_ServerInterface :: string
  ed_ServerStream :: "StreamData option"
  ed_ClientStruct :: string
  ed_ClientInterface :: string
  ed_ClientStream :: "StreamData option"

record 'sc ServiceData =
  sd_Service :: "'sc Data"
  sd_PkgName :: string
  sd_Name :: string
  sd_Description :: string
  sd_Endpoints :: "EndpointData list"
  sd_Messages :: "UserTypeData list"
  sd_ServerStruct :: string
  sd_ClientStruct :: string
  sd_ServerInit :: string
  sd_ClientInit :: string
  sd_ServerInterface :: string
  sd_ClientInterface :: string
  sd_ClientInterfaceInit :: string
  sd_TransformHelpers :: "TransformFunctionData list"
  sd_Validations :: "ValidationData list"
  sd_Scope :: 'sc

text \<open>What a Go panic leaves of a run: an index past the end of a slice, or a nil pointer.\<close>

datatype panic = IndexOutOfRange | NilDereference

section \<open>Attribute analyzers and the functions of other packages\<close>

text \<open>
  An attribute analyzer (\<^verbatim>\<open>codegen.AttributeAnalyzer\<close>) is bound to an attribute, which
  may be nil, and to a required flag; it is made by one of four constructors, and
  \<^verbatim>\<open>Dup\<close> re-points it to another attribute under the same rules.
\<close>

datatype family = ProtoBufFamily | PayloadFamily | ResultFamily | ProjectedFamily

record AttributeAnalyzer =
  an_Attribute :: "AttributeExpr option"
  an_required :: bool
  an_family :: family
  an_pkg :: string

definition Dup :: "AttributeAnalyzer \<Rightarrow> AttributeExpr \<Rightarrow> bool \<Rightarrow> AttributeAnalyzer" where
  "Dup an at req = an\<lparr>an_Attribute := Some at, an_required := req\<rparr>"

definition newProtoBufAnalyzer :: "AttributeExpr \<Rightarrow> string \<Rightarrow> AttributeAnalyzer" where
  "newProtoBufAnalyzer att pkg =
     \<lparr>an_Attribute = Some att, an_required = True, an_family = ProtoBufFamily, an_pkg = pkg\<rparr>"

definition PayloadAnalyzer :: "AttributeExpr \<Rightarrow> string \<Rightarrow> AttributeAnalyzer" where
  "PayloadAnalyzer att pkg =
     \<lparr>an_Attribute = Some att, an_required = True, an_family = PayloadFamily, an_pkg = pkg\<rparr>"

definition ResultAnalyzer :: "AttributeExpr \<Rightarrow> string \<Rightarrow> AttributeAnalyzer" where
  "ResultAnalyzer att pkg =
     \<lparr>an_Attribute = Some att, an_required = True, an_family = ResultFamily, an_pkg = pkg\<rparr>"

definition ProjectedTypeAnalyzer :: "AttributeExpr option \<Rightarrow> string \<Rightarrow> AttributeAnalyzer" where
  "ProjectedTypeAnalyzer att pkg =
     \<lparr>an_Attribute = att, an_required = True, an_family = ProjectedFamily, an_pkg = pkg\<rparr>"

text \<open>
  The functions of packages \<^verbatim>\<open>expr\<close>, \<^verbatim>\<open>codegen\<close> and \<^verbatim>\<open>service\<close>, and of the files of
  package \<^verbatim>\<open>grpc/codegen\<close> that are not at hand, are parameters of the model: one record
  of functions, passed to every definition. Those that inspect a type take the store;
  those that reserve a name in a scope return the scope they leave.
\<close>

record 'sc ext =
  x_Name :: "store \<Rightarrow> AttributeAnalyzer \<Rightarrow> bool \<Rightarrow> string"
  x_Ref :: "store \<Rightarrow> AttributeAnalyzer \<Rightarrow> bool \<Rightarrow> string"
  x_Def :: "store \<Rightarrow> AttributeAnalyzer \<Rightarrow> string"
  x_DefaultValue :: "store \<Rightarrow> AttributeAnalyzer \<Rightarrow> string option"
  x_RecursiveValidationCode :: "store \<Rightarrow> AttributeAnalyzer \<Rightarrow> string \<Rightarrow> string"
  x_protoBufMessageName :: "store \<Rightarrow> AttributeExpr \<Rightarrow> 'sc \<Rightarrow> string \<times> 'sc"
  x_protoBufTransform ::
    "store \<Rightarrow> AttributeAnalyzer \<Rightarrow> AttributeAnalyzer \<Rightarrow> string \<Rightarrow> string \<Rightarrow> bool
       \<Rightarrow> string + (string \<times> TransformFunctionData list)"
  x_AppendHelpers ::
    "TransformFunctionData list \<Rightarrow> TransformFunctionData list \<Rightarrow> TransformFunctionData list"
  x_makeProtoBufMessage :: "store \<Rightarrow> AttributeExpr \<Rightarrow> string \<Rightarrow> 'sc \<Rightarrow> store \<times> AttributeExpr \<times> 'sc"
  x_protoBufify :: "string \<Rightarrow> bool \<Rightarrow> string"
  x_Goify :: "string \<Rightarrow> bool \<Rightarrow> string"
  x_Unique :: "'sc \<Rightarrow> string \<Rightarrow> string \<times> 'sc"
  x_NewNameScope :: 'sc
  x_GoFullTypeRef :: "store \<Rightarrow> 'sc \<Rightarrow> AttributeExpr \<Rightarrow> string \<Rightarrow> string"
  x_IsPrimitive :: "store \<Rightarrow> DataType \<Rightarrow> bool"
  x_IsObject :: "store \<Rightarrow> DataType \<Rightarrow> bool"
  x_AsObject :: "store \<Rightarrow> DataType \<Rightarrow> (string \<times> AttributeExpr) list option"
  x_AsArray :: "store \<Rightarrow> DataType \<Rightarrow> AttributeExpr option"
  x_AsMap :: "store \<Rightarrow> DataType \<Rightarrow> (AttributeExpr \<times> AttributeExpr) option"
  x_Kind :: "store \<Rightarrow> DataType \<Rightarrow> Kind"
  x_IsStreaming :: "MethodExpr \<Rightarrow> bool"
  x_IsPayloadStreaming :: "MethodExpr \<Rightarrow> bool"
  x_statusCodeToGRPCConst :: "int \<Rightarrow> string"
  x_Services :: "string \<Rightarrow> 'sc Data option"
  x_Method :: "'sc Data \<Rightarrow> string \<Rightarrow> MethodData option"
  x_Scheme :: "SchemeData list \<Rightarrow> string \<Rightarrow> SchemeData option"
  x_AppendScheme :: "SchemeData list \<Rightarrow> SchemeData \<Rightarrow> SchemeData list"
  x_GRPCService :: "string \<Rightarrow> GRPCServiceExpr option"

section \<open>collectMessages\<close>

text \<open>
  \<^verbatim>\<open>collectMessages\<close> walks the attribute of the analyzer. It appends to
  \<^verbatim>\<open>sd.Validations\<close>, reserves names in \<^verbatim>\<open>sd.Scope\<close> and adds to the map \<^verbatim>\<open>seen\<close>,
  so the model returns the service data and the seen set it leaves, next to the list of
  messages. The loop over the fields of an object is \<open>collectFields\<close>.
\<close>

function collectMessages ::
    "'sc ext \<Rightarrow> store \<Rightarrow> AttributeAnalyzer \<Rightarrow> 'sc ServiceData \<Rightarrow> string set
       \<Rightarrow> UserTypeData list \<times> 'sc ServiceData \<times> string set"
  and collectFields ::
    "'sc ext \<Rightarrow> store \<Rightarrow> AttributeAnalyzer \<Rightarrow> (string \<times> AttributeExpr) list
       \<Rightarrow> 'sc ServiceData \<Rightarrow> string set
       \<Rightarrow> UserTypeData list \<times> 'sc ServiceData \<times> string set"
where
  "collectMessages x st an sd seen =
     (case an_Attribute an of
        None \<Rightarrow> ([], sd, seen)
      | Some at \<Rightarrow>
          (case att_Type at of
             UserType r \<Rightarrow>
               (case userType st r of
                  None \<Rightarrow> ([], sd, seen)
                | Some dt \<Rightarrow>
                    if ut_TypeName dt \<in> seen then ([], sd, seen)
                    else
                      let (name, sc) = x_protoBufMessageName x st at (sd_Scope sd);
                          sd1 = sd\<lparr>sd_Scope := sc\<rparr>;
                          ref = x_Ref x st an True;
                          d = \<lparr>utd_Name = ut_TypeName dt,
                               utd_VarName = name,
                               utd_Description = att_Description (ut_Attribute dt),
                               utd_Def = x_Def x st (Dup an (ut_Attribute dt) True),
                               utd_Ref = ref,
                               utd_Type = r\<rparr>;
                          vDef = x_RecursiveValidationCode x st an ''message'';
                          sd2 = (if vDef \<noteq> []
                                 then sd1\<lparr>sd_Validations := sd_Validations sd1 @
                                        [\<lparr>vd_Name = ''Validate'' @ name,
                                          vd_Def = vDef,
                                          vd_ArgName = ''message'',
                                          vd_SrcName = name,
                                          vd_SrcRef = ref\<rparr>]\<rparr>
                                 else sd1);
                          (data, sd3, seen3) =
                             collectMessages x st (Dup an (ut_Attribute dt) True) sd2
                               (insert (ut_TypeName dt) seen)
                      in (d # data, sd3, seen3))
           | Object fs \<Rightarrow> collectFields x st an fs sd seen
           | Array e \<Rightarrow> collectMessages x st (Dup an e True) sd seen
           | Map k e \<Rightarrow>
               (let (d1, sd1, seen1) = collectMessages x st (Dup an k True) sd seen;
                    (d2, sd2, seen2) = collectMessages x st (Dup an e True) sd1 seen1
                in (d1 @ d2, sd2, seen2))
           | _ \<Rightarrow> ([], sd, seen)))"
| "collectFields x st an [] sd seen = ([], sd, seen)"
| "collectFields x st an (f # fs) sd seen =
     (let (d1, sd1, seen1) = collectMessages x st (Dup an (snd f) True) sd seen;
          (d2, sd2, seen2) = collectFields x st an fs sd1 seen1
      in (d1 @ d2, sd2, seen2))"
  by pat_completeness auto

text \<open>
  The second walk of a map and every further field of an object start from the seen set
  the walk before them left. Termination therefore needs that a walk only adds to the
  set: fewer names of the store are unseen, or as many and the attribute is smaller.
\<close>

lemma collect_seen_mono_dom:
  "collectMessages_collectFields_dom (Inl (x, st, an, sd, seen)) \<Longrightarrow>
     seen \<subseteq> snd (snd (collectMessages x st an sd seen))"
  "collectMessages_collectFields_dom (Inr (x, st, an, fs, sd, seen)) \<Longrightarrow>
     seen \<subseteq> snd (snd (collectFields x st an fs sd seen))"
proof (induct rule: collectMessages_collectFields.pinduct)
  case (1 x st an sd seen)
  show ?case
  proof (cases "an_Attribute an")
    case None
    with 1(1) show ?thesis by (simp add: collectMessages.psimps)
  next
    case (Some at)
    show ?thesis
    proof (cases "att_Type at")
      case (UserType r)
      show ?thesis
      proof (cases "userType st r")
        case None
        with 1(1) Some UserType show ?thesis by (simp add: collectMessages.psimps)
      next
        case (Some dt)
        show ?thesis
        proof (cases "ut_TypeName dt \<in> seen")
          case True
          with 1(1) \<open>an_Attribute an = Some at\<close> UserType Some show ?thesis
            by (simp add: collectMessages.psimps)
        next
          case False
          from 1(2)[OF \<open>an_Attribute an = Some at\<close> UserType Some False refl _ refl refl refl refl refl]
          show ?thesis
            using 1(1) \<open>an_Attribute an = Some at\<close> UserType Some False
            by (auto simp add: collectMessages.psimps Let_def split: prod.splits)
        qed
      qed
    next
      case (Object fs)
      with 1(1) 1(3)[OF Some Object] Some show ?thesis by (simp add: collectMessages.psimps)
    next
      case (Array e)
      with 1(1) 1(4)[OF Some Array] Some show ?thesis by (simp add: collectMessages.psimps)
    next
      case (Map k e)
      obtain d1 sd1 seen1 where r1: "collectMessages x st (Dup an k True) sd seen = (d1, sd1, seen1)"
        by (cases "collectMessages x st (Dup an k True) sd seen") auto
      from 1(5)[OF Some Map] r1 have a: "seen \<subseteq> seen1" by simp
      from 1(6)[OF Some Map refl r1[symmetric] refl]
      have b: "seen1 \<subseteq> snd (snd (collectMessages x st (Dup an e True) sd1 seen1))" .
      show ?thesis using 1(1) Some Map r1 a b
        by (auto simp add: collectMessages.psimps Let_def split: prod.splits)
    qed (use 1(1) Some in \<open>simp_all add: collectMessages.psimps\<close>)
  qed
next
  case (2 x st an sd seen)
  then show ?case by (simp add: collectFields.psimps)
next
  case (3 x st an f fs sd seen)
  obtain d1 sd1 seen1 where r1: "collectMessages x st (Dup an (snd f) True) sd seen = (d1, sd1, seen1)"
    by (cases "collectMessages x st (Dup an (snd f) True) sd seen") auto
  from 3(2) r1 have a: "seen \<subseteq> seen1" by simp
  from 3(3)[OF refl r1[symmetric] refl]
  have b: "seen1 \<subseteq> snd (snd (collectFields x st an fs sd1 seen1))" .
  show ?case using 3(1) r1 a b
    by (auto simp add: collectFields.psimps Let_def split: prod.splits)
qed


lemma card_unseen_insert:
  "n \<in> ut_TypeName ` set st \<Longrightarrow> n \<notin> seen \<Longrightarrow>
     card (ut_TypeName ` set st - insert n seen) < card (ut_TypeName ` set st - seen)"
  by (intro psubset_card_mono) auto

lemma card_unseen_mono:
  "seen \<subseteq> seen' \<Longrightarrow>
     card (ut_TypeName ` set st - seen') \<le> card (ut_TypeName ` set st - seen)"
  by (intro card_mono) auto

lemma userType_name_in_store:
  "userType st r = Some dt \<Longrightarrow> ut_TypeName dt \<in> ut_TypeName ` set st"
  by (auto simp: userType_def split: if_splits)

lemma collectMessages_total: "All collectMessages_collectFields_dom"
proof (relation "inv_image (less_than <*lex*> less_than)
     (\<lambda>v. case v of
        Inl (x, st, an, sd, seen) \<Rightarrow>
          (card (ut_TypeName ` set st - seen),
           (case an_Attribute an of None \<Rightarrow> 0 | Some at \<Rightarrow> size at))
      | Inr (x, st, an, fs, sd, seen) \<Rightarrow>
          (card (ut_TypeName ` set st - seen), size_list (size_prod (\<lambda>x. 0) size) fs))",
    goal_cases)
  case 1
  show ?case by (intro wf_inv_image wf_lex_prod wf_less_than)
next
  case (2 x st an sd seen at r dt)
  from 2(3,4) have "card (ut_TypeName ` set st - insert (ut_TypeName dt) seen)
      < card (ut_TypeName ` set st - seen)"
    by (intro card_unseen_insert userType_name_in_store)
  then show ?case by simp
next
  case (3 x st an sd seen at fs)
  then show ?case by (cases at) simp
next
  case (4 x st an sd seen at e)
  then show ?case by (cases at) (simp add: Dup_def)
next
  case (5 x st an sd seen at k e)
  then show ?case by (cases at) (simp add: Dup_def)
next
  case (6 x st an sd seen at k e xa d1 y sd1 seen1)
  from collect_seen_mono_dom(1)[OF 6(6)] 6(3,4,5) have "seen \<subseteq> seen1"
    by (metis snd_conv)
  from card_unseen_mono[OF this, of st] 6(1,2) show ?case
    by (cases at) (auto simp add: Dup_def)
next
  case (7 x st an f fs sd seen)
  then show ?case by (cases f) (simp add: Dup_def)
next
  case (8 x st an f fs sd seen xa d1 y sd1 seen1)
  from collect_seen_mono_dom(1)[OF 8(4)] 8(1,2,3) have "seen \<subseteq> seen1"
    by (metis snd_conv)
  from card_unseen_mono[OF this, of st] show ?case
    by auto
qed

termination collectMessages
  by (rule collectMessages_total)

declare collectMessages.simps [simp del]

section \<open>Lookups on the service data\<close>

definition Endpoint :: "'sc ServiceData \<Rightarrow> string \<Rightarrow> EndpointData option" where
  "Endpoint sd name = find (\<lambda>ed. md_Name (ed_Method ed) = name) (sd_Endpoints sd)"

definition ValidationFor :: "'sc ServiceData \<Rightarrow> string \<Rightarrow> ValidationData option" where
  "ValidationFor sd name = find (\<lambda>v. vd_SrcName v = name) (sd_Validations sd)"

definition needInit :: "'sc ext \<Rightarrow> store \<Rightarrow> DataType \<Rightarrow> bool" where
  "needInit x st dt =
     (if dt = Empty then False
      else (case x_AsObject x st dt of
              Some obj \<Rightarrow> if length obj = 0 then False else True
            | None \<Rightarrow> True))"

text \<open>\<^verbatim>\<open>(*expr.Object).Attribute\<close>: the attribute of the given name, nil when there is none.\<close>

definition objectAttribute :: "(string \<times> AttributeExpr) list \<Rightarrow> string \<Rightarrow> AttributeExpr option" where
  "objectAttribute obj name = map_of obj name"

section \<open>The conversion data\<close>

text \<open>
  The state of one service compilation next to the store: the service data under
  construction, the map \<^verbatim>\<open>seen\<close> of \<^verbatim>\<open>analyze\<close>, and the lines written to standard
  output (\<^verbatim>\<open>buildConvertData\<close> prints the error of a failed transform).
  The scope of the service, \<^verbatim>\<open>svc.Scope\<close>, is reached through \<^verbatim>\<open>sd.Service\<close>.
\<close>

definition setServiceScope :: "'sc ServiceData \<Rightarrow> 'sc \<Rightarrow> 'sc ServiceData" where
  "setServiceScope sd sc = sd\<lparr>sd_Service := (sd_Service sd)\<lparr>svc_Scope := sc\<rparr>\<rparr>"

text \<open>
  \<^verbatim>\<open>buildConvertData\<close>. The function dereferences the attributes of both analyzers; an
  analyzer bound to no attribute ends the run with a nil dereference. The result is the
  returned pointer (\<open>None\<close> for nil), the service data and the output.
\<close>

definition buildConvertData ::
  "'sc ext \<Rightarrow> store \<Rightarrow> AttributeAnalyzer \<Rightarrow> AttributeAnalyzer \<Rightarrow> string \<Rightarrow> string \<Rightarrow> bool
     \<Rightarrow> 'sc ServiceData \<Rightarrow> string list \<Rightarrow> (InitData \<Rightarrow> InitData) option
     \<Rightarrow> panic + (ConvertData option \<times> 'sc ServiceData \<times> string list)" where
  "buildConvertData x st source target sourceVar targetVar proto sd out fn =
     (case an_Attribute source of
        None \<Rightarrow> Inl NilDereference
      | Some srcAtt \<Rightarrow>
     (case an_Attribute target of
        None \<Rightarrow> Inl NilDereference
      | Some tgtAtt \<Rightarrow>
          let srcName = x_Name x st source True;
              srcRef = x_Ref x st source True;
              tgtName = x_Name x st target True;
              tgtRef = x_Ref x st target True;
              (validation, sd1) =
                 (if \<not> proto
                  then (let (vn, sc) = x_protoBufMessageName x st srcAtt (svc_Scope (sd_Service sd));
                            sd' = setServiceScope sd sc
                        in (ValidationFor sd' vn, sd'))
                  else (None, sd));
              n = (if x_IsPrimitive x st (att_Type tgtAtt)
                   then x_Name x st source False else x_Name x st target False);
              name = ''New'' @ n;
              isStruct = x_IsObject x st (att_Type tgtAtt)
          in (case x_protoBufTransform x st source target sourceVar targetVar proto of
                Inl err \<Rightarrow> Inr (None, sd1, out @ [err])
              | Inr (code, helpers) \<Rightarrow>
                  let sd2 = sd1\<lparr>sd_TransformHelpers :=
                              x_AppendHelpers x (sd_TransformHelpers sd1) helpers\<rparr>;
                      args = [\<lparr>ia_Name = sourceVar, ia_Ref = sourceVar, ia_FieldName = [],
                               ia_TypeName = srcName, ia_TypeRef = srcRef, ia_Pointer = False,
                               ia_Required = False, ia_DefaultValue = None, ia_Validate = []\<rparr>];
                      data = \<lparr>in_Name = name, in_Args = args, in_ReturnVarName = targetVar,
                              in_ReturnTypeRef = tgtRef, in_ReturnIsStruct = isStruct,
                              in_Code = code\<rparr>;
                      data' = (case fn of None \<Rightarrow> data | Some f \<Rightarrow> f data)
                  in Inr (Some \<lparr>cv_SrcName = srcName, cv_SrcRef = srcRef, cv_TgtName = tgtName,
                                 cv_TgtRef = tgtRef, cv_Init = Some data',
                                 cv_Validation = validation\<rparr>, sd2, out))))"

text \<open>
  The constructor argument that passes a metadata entry, as the code writes it for request
  metadata, headers and trailers alike.
\<close>

definition metadataArg :: "MetadataData \<Rightarrow> InitArgData" where
  "metadataArg m =
     \<lparr>ia_Name = mt_VarName m, ia_Ref = mt_VarName m, ia_FieldName = mt_FieldName m,
      ia_TypeName = mt_TypeName m, ia_TypeRef = mt_TypeRef m, ia_Pointer = mt_Pointer m,
      ia_Required = mt_Required m, ia_DefaultValue = None, ia_Validate = mt_Validate m\<rparr>"

definition buildRequestConvertData ::
  "'sc ext \<Rightarrow> store \<Rightarrow> AttributeAnalyzer \<Rightarrow> AttributeAnalyzer \<Rightarrow> MetadataData list
     \<Rightarrow> GRPCEndpointExpr \<Rightarrow> 'sc ServiceData \<Rightarrow> string list \<Rightarrow> bool
     \<Rightarrow> panic + (ConvertData option \<times> 'sc ServiceData \<times> string list)" where
  "buildRequestConvertData x st requestAn payloadAn md e sd out svr =
     (if (svr \<and> \<not> needInit x st (att_Type (me_Payload (ep_MethodExpr e)))) \<or>
         (\<not> svr \<and> x_IsPayloadStreaming x (ep_MethodExpr e))
      then Inr (None, sd, out)
      else if svr
      then buildConvertData x st requestAn payloadAn ''message'' ''payload'' False sd out
             (Some (\<lambda>data.
                let data1 =
                      (if att_Type (me_StreamingPayload (ep_MethodExpr e)) \<noteq> Empty
                       then data\<lparr>in_Args := []\<rparr> else data)
                in data1\<lparr>in_Args := in_Args data1 @ map metadataArg md\<rparr>))
      else buildConvertData x st payloadAn requestAn ''payload'' ''message'' True sd out
             (Some (\<lambda>data.
                if att_Type (me_StreamingPayload (ep_MethodExpr e)) \<noteq> Empty
                then data\<lparr>in_Args := []\<rparr> else data)))"

definition buildResponseConvertData ::
  "'sc ext \<Rightarrow> store \<Rightarrow> AttributeAnalyzer \<Rightarrow> AttributeAnalyzer \<Rightarrow> MetadataData list
     \<Rightarrow> MetadataData list \<Rightarrow> GRPCEndpointExpr \<Rightarrow> 'sc ServiceData \<Rightarrow> string list \<Rightarrow> bool
     \<Rightarrow> panic + (ConvertData option \<times> 'sc ServiceData \<times> string list)" where
  "buildResponseConvertData x st responseAn resultAn hdrs trlrs e sd out svr =
     (if x_IsStreaming x (ep_MethodExpr e) \<or>
         \<not> needInit x st (att_Type (me_Result (ep_MethodExpr e)))
      then Inr (None, sd, out)
      else if svr
      then buildConvertData x st resultAn responseAn ''result'' ''message'' True sd out
             (Some (\<lambda>data. data))
      else buildConvertData x st responseAn resultAn ''message'' ''result'' False sd out
             (Some (\<lambda>data. data\<lparr>in_Args := in_Args data @ map metadataArg hdrs
                                              @ map metadataArg trlrs\<rparr>)))"

definition buildErrorsData :: "'sc ext \<Rightarrow> store \<Rightarrow> GRPCEndpointExpr \<Rightarrow> 'sc ServiceData \<Rightarrow> ErrorData list" where
  "buildErrorsData x st e sd =
     map (\<lambda>v.
        \<lparr>er_StatusCode = [],
         er_Name = ge_Name v,
         er_Ref = x_GoFullTypeRef x st (svc_Scope (sd_Service sd)) (ge_ErrorAttribute v)
                    (svc_PkgName (sd_Service sd)),
         er_Response = Some
           \<lparr>rp_StatusCode = x_statusCodeToGRPCConst x (rs_StatusCode (ge_Response v)),
            rp_Description = rs_Description (ge_Response v),
            rp_Message = None, rp_Headers = [], rp_Trailers = [],
            rp_ServerConvert = None, rp_ClientConvert = None\<rparr>\<rparr>)
       (ep_GRPCErrors e)"

section \<open>Metadata\<close>

text \<open>
  Modelled from the spec: \<^verbatim>\<open>IsPointer\<close> is a query of the analyzer contract of package
  \<^verbatim>\<open>codegen\<close>, whose code is not at hand. The spec (4.1) lists it among the pure
  queries over the attribute the analyzer is bound to and says of a reference that it
  gets an indirection if the attribute is optional and primitive. So an analyzer
  reports a pointer when it is bound to an attribute, the attribute is not required, and
  the attribute's type is primitive.
\<close>

definition IsPointer :: "'sc ext \<Rightarrow> store \<Rightarrow> AttributeAnalyzer \<Rightarrow> bool" where
  "IsPointer x st an =
     (case an_Attribute an of
        None \<Rightarrow> False
      | Some at \<Rightarrow> \<not> an_required an \<and> x_IsPrimitive x st (att_Type at))"

text \<open>
  The callback of \<^verbatim>\<open>extractMetadata\<close> for one mapped field. It reserves the variable name
  in the scope and reads the type of the service analyzer's attribute, which is a nil
  dereference when there is no attribute; so is the element type of a map element that
  \<^verbatim>\<open>expr.AsArray\<close> does not give as an array.
\<close>

definition metadataEntry ::
  "'sc ext \<Rightarrow> store \<Rightarrow> AttributeAnalyzer \<Rightarrow> 'sc \<Rightarrow> string \<times> string \<times> bool \<times> AttributeExpr
     \<Rightarrow> panic + (MetadataData \<times> 'sc)" where
  "metadataEntry x st serviceAn scope f =
     (case f of (name, elem, required, c) \<Rightarrow>
        let arr = x_AsArray x st (att_Type c);
            mp = x_AsMap x st (att_Type c);
            an = Dup serviceAn c required;
            (varn, scope1) = x_Unique x scope (x_Goify x name False);
            pointer = (IsPointer x st an \<and> x_IsPrimitive x st (att_Type c))
        in (case an_Attribute serviceAn of
              None \<Rightarrow> Inl NilDereference
            | Some sat \<Rightarrow>
                let fieldName = (if \<not> x_IsObject x st (att_Type sat) then []
                                 else x_Goify x name True);
                    stringSlice = (case arr of
                                     None \<Rightarrow> False
                                   | Some el \<Rightarrow> x_Kind x st (att_Type el) = StringKind);
                    mapStringSlice =
                      (case mp of
                         None \<Rightarrow> Inr False
                       | Some (k, el) \<Rightarrow>
                           if x_Kind x st (att_Type k) = StringKind \<and>
                              x_Kind x st (att_Type el) = ArrayKind
                           then (case x_AsArray x st (att_Type el) of
                                   None \<Rightarrow> Inl NilDereference
                                 | Some el2 \<Rightarrow> Inr (x_Kind x st (att_Type el2) = StringKind))
                           else Inr False)
                in (case mapStringSlice of
                      Inl p \<Rightarrow> Inl p
                    | Inr mss \<Rightarrow>
                        Inr (\<lparr>mt_Name = elem,
                              mt_AttributeName = name,
                              mt_Description = att_Description c,
                              mt_FieldName = fieldName,
                              mt_VarName = varn,
                              mt_TypeName = x_Name x st an False,
                              mt_TypeRef = x_Ref x st an False,
                              mt_Required = required,
                              mt_Pointer = pointer,
                              mt_StringSlice = stringSlice,
                              mt_Slice = (arr \<noteq> None),
                              mt_MapStringSlice = mss,
                              mt_Map = (mp \<noteq> None),
                              mt_Type = att_Type c,
                              mt_Validate = x_RecursiveValidationCode x st an varn,
                              mt_DefaultValue = x_DefaultValue x st an\<rparr>, scope1))))"

fun extractMetadata ::
  "'sc ext \<Rightarrow> store \<Rightarrow> MappedAttributeExpr \<Rightarrow> AttributeAnalyzer \<Rightarrow> 'sc
     \<Rightarrow> panic + (MetadataData list \<times> 'sc)" where
  "extractMetadata x st [] serviceAn scope = Inr ([], scope)"
| "extractMetadata x st (f # fs) serviceAn scope =
     (case metadataEntry x st serviceAn scope f of
        Inl p \<Rightarrow> Inl p
      | Inr (m, scope1) \<Rightarrow>
          (case extractMetadata x st fs serviceAn scope1 of
             Inl p \<Rightarrow> Inl p
           | Inr (ms, scope2) \<Rightarrow> Inr (m # ms, scope2)))"

section \<open>Streams\<close>

definition resultAnalyzer ::
  "'sc ext \<Rightarrow> store \<Rightarrow> GRPCEndpointExpr \<Rightarrow> 'sc ServiceData \<Rightarrow> panic + AttributeAnalyzer" where
  "resultAnalyzer x st e sd =
     (let svc = sd_Service sd in
      case x_Method x svc (ep_Name e) of
        None \<Rightarrow> Inl NilDereference
      | Some md \<Rightarrow>
          (case md_ViewedResult md of
             Some vr \<Rightarrow>
               (case x_AsObject x st (vr_Type vr) of
                  None \<Rightarrow> Inl NilDereference
                | Some obj \<Rightarrow>
                    Inr (ProjectedTypeAnalyzer (objectAttribute obj ''projected'')
                           (svc_ViewsPkg svc)))
           | None \<Rightarrow> Inr (ResultAnalyzer (me_Result (ep_MethodExpr e)) (svc_PkgName svc))))"

text \<open>
  \<^verbatim>\<open>buildStreamData\<close>. The endpoint data is looked up by the name of the endpoint; the
  code reads its method without a nil check, and reads the server or the client stream
  of the method data likewise. An adapter is built when the type it carries is not
  \<^verbatim>\<open>expr.Empty\<close>; its name and reference stay empty and its conversion nil otherwise.
\<close>

definition buildStreamData ::
  "'sc ext \<Rightarrow> store \<Rightarrow> GRPCEndpointExpr \<Rightarrow> 'sc ServiceData \<Rightarrow> string list \<Rightarrow> bool
     \<Rightarrow> panic + (StreamData \<times> 'sc ServiceData \<times> string list)" where
  "buildStreamData x st e sd out svr =
     (let svc = sd_Service sd in
      case Endpoint sd (ep_Name e) of
        None \<Rightarrow> Inl NilDereference
      | Some ed \<Rightarrow>
     (let md = ed_Method ed;
          spayloadAn = PayloadAnalyzer (me_StreamingPayload (ep_MethodExpr e)) (svc_PkgName svc)
      in
      case resultAnalyzer x st e sd of
        Inl p \<Rightarrow> Inl p
      | Inr resultAn \<Rightarrow>
     (let requestAn = newProtoBufAnalyzer (ep_StreamingRequest e) (sd_PkgName sd);
          responseAn = newProtoBufAnalyzer (rs_Message (ep_Response e)) (sd_PkgName sd);
          resVar = (if md_ViewedResult md \<noteq> None then ''vresult'' else ''result'');
          hasResult = (att_Type (me_Result (ep_MethodExpr e)) \<noteq> Empty);
          hasSPayload = (att_Type (me_StreamingPayload (ep_MethodExpr e)) \<noteq> Empty)
      in
      if svr then
        (case md_ServerStream md of
           None \<Rightarrow> Inl NilDereference
         | Some ss \<Rightarrow>
        (case (if hasResult
               then buildConvertData x st resultAn responseAn resVar ''v'' True sd out None
               else Inr (None, sd, out)) of
           Inl p \<Rightarrow> Inl p
         | Inr (sendType, sd1, out1) \<Rightarrow>
        (case (if hasSPayload
               then buildConvertData x st requestAn spayloadAn ''v'' ''spayload'' False sd1 out1 None
               else Inr (None, sd1, out1)) of
           Inl p \<Rightarrow> Inl p
         | Inr (recvType, sd2, out2) \<Rightarrow>
             Inr (\<lparr>sm_VarName = ss_VarName ss,
                   sm_Type = ''server'',
                   sm_ServiceInterface = svc_PkgName svc @ ''.'' @ ss_Interface ss,
                   sm_Interface = sd_PkgName sd @ ''.'' @ svc_StructName svc @ ''_'' @
                                  md_VarName md @ ''Server'',
                   sm_Endpoint = md,
                   sm_SendName = (if hasResult then ss_SendName ss else []),
                   sm_SendRef = (if hasResult then ed_ResultRef ed else []),
                   sm_SendConvert = sendType,
                   sm_RecvConvert = recvType,
                   sm_RecvName = (if hasSPayload then ss_RecvName ss else []),
                   sm_RecvRef = (if hasSPayload then x_Ref x st spayloadAn True else []),
                   sm_MustClose = ss_MustClose ss\<rparr>, sd2, out2))))
      else
        (case md_ClientStream md of
           None \<Rightarrow> Inl NilDereference
         | Some cs \<Rightarrow>
        (case (if hasSPayload
               then buildConvertData x st spayloadAn requestAn ''spayload'' ''v'' True sd out None
               else Inr (None, sd, out)) of
           Inl p \<Rightarrow> Inl p
         | Inr (sendType, sd1, out1) \<Rightarrow>
        (case (if hasResult
               then buildConvertData x st responseAn resultAn ''v'' resVar False sd1 out1 None
               else Inr (None, sd1, out1)) of
           Inl p \<Rightarrow> Inl p
         | Inr (recvType, sd2, out2) \<Rightarrow>
             Inr (\<lparr>sm_VarName = ss_VarName cs,
                   sm_Type = ''client'',
                   sm_ServiceInterface = svc_PkgName svc @ ''.'' @ ss_Interface cs,
                   sm_Interface = sd_PkgName sd @ ''.'' @ svc_StructName svc @ ''_'' @
                                  md_VarName md @ ''Client'',
                   sm_Endpoint = md,
                   sm_SendName = (if hasSPayload then ss_SendName cs else []),
                   sm_SendRef = (if hasSPayload then x_Ref x st spayloadAn True else []),
                   sm_SendConvert = sendType,
                   sm_RecvConvert = recvType,
                   sm_RecvName = (if hasResult then ss_RecvName cs else []),
                   sm_RecvRef = (if hasResult then ed_ResultRef ed else []),
                   sm_MustClose = ss_MustClose cs\<rparr>, sd2, out2)))))))"

section \<open>analyze\<close>

definition pbPkgName :: string where
  "pbPkgName = ''pb''"

text \<open>
  The closure \<^verbatim>\<open>collect\<close> of \<^verbatim>\<open>analyze\<close>: it appends the collected messages to
  \<^verbatim>\<open>sd.Messages\<close> and returns the first of them; indexing an empty slice panics.
\<close>

definition collect ::
  "'sc ext \<Rightarrow> store \<Rightarrow> 'sc ServiceData \<Rightarrow> string set \<Rightarrow> AttributeExpr
     \<Rightarrow> panic + (UserTypeData \<times> 'sc ServiceData \<times> string set)" where
  "collect x st sd seen att =
     (let (msgs, sd1, seen1) =
            collectMessages x st (newProtoBufAnalyzer att (sd_PkgName sd)) sd seen;
          sd2 = sd1\<lparr>sd_Messages := sd_Messages sd1 @ msgs\<rparr>
      in (case msgs of
            [] \<Rightarrow> Inl IndexOutOfRange
          | m # _ \<Rightarrow> Inr (m, sd2, seen1)))"

text \<open>The block that builds the request data of an endpoint.\<close>

definition requestData ::
  "'sc ext \<Rightarrow> store \<Rightarrow> GRPCEndpointExpr \<Rightarrow> AttributeAnalyzer \<Rightarrow> 'sc ServiceData \<Rightarrow> string set
     \<Rightarrow> string list \<Rightarrow> panic + (RequestData \<times> 'sc ServiceData \<times> string set \<times> string list)" where
  "requestData x st e payloadAn sd seen out =
     (let requestAn = newProtoBufAnalyzer (ep_Request e) (sd_PkgName sd) in
      case extractMetadata x st (ep_Metadata e) payloadAn (svc_Scope (sd_Service sd)) of
        Inl p \<Rightarrow> Inl p
      | Inr (reqMD, sc) \<Rightarrow>
     (case buildRequestConvertData x st requestAn payloadAn reqMD e (setServiceScope sd sc) out True of
        Inl p \<Rightarrow> Inl p
      | Inr (serverConvert, sd1, out1) \<Rightarrow>
     (case buildRequestConvertData x st requestAn payloadAn reqMD e sd1 out1 False of
        Inl p \<Rightarrow> Inl p
      | Inr (clientConvert, sd2, out2) \<Rightarrow>
     (case x_AsObject x st (att_Type (ep_Request e)) of
        None \<Rightarrow> Inl NilDereference
      | Some obj \<Rightarrow>
     (let cliArgs =
            (if length obj > 0
             then [\<lparr>ia_Name = ''message'', ia_Ref = ''message'', ia_FieldName = [],
                     ia_TypeName = x_Name x st requestAn True,
                     ia_TypeRef = x_Ref x st requestAn True, ia_Pointer = False,
                     ia_Required = False, ia_DefaultValue = None, ia_Validate = []\<rparr>]
             else [])
            @ map metadataArg reqMD
      in
      case collect x st sd2 seen
             (if att_Type (ep_StreamingRequest e) \<noteq> Empty
              then ep_StreamingRequest e else ep_Request e) of
        Inl p \<Rightarrow> Inl p
      | Inr (message, sd3, seen1) \<Rightarrow>
          Inr (\<lparr>rq_Description = att_Description (ep_Request e),
                rq_Message = Some message,
                rq_Metadata = reqMD,
                rq_ServerConvert = serverConvert,
                rq_ClientConvert = clientConvert,
                rq_CLIArgs = cliArgs\<rparr>, sd3, seen1, out2))))))"

text \<open>The block that builds the response data of an endpoint.\<close>

definition responseData ::
  "'sc ext \<Rightarrow> store \<Rightarrow> GRPCEndpointExpr \<Rightarrow> 'sc ServiceData \<Rightarrow> string set \<Rightarrow> string list
     \<Rightarrow> panic + (ResponseData \<times> 'sc ServiceData \<times> string set \<times> string list)" where
  "responseData x st e sd seen out =
     (let responseAn = newProtoBufAnalyzer (rs_Message (ep_Response e)) (sd_PkgName sd) in
      case resultAnalyzer x st e sd of
        Inl p \<Rightarrow> Inl p
      | Inr resultAn \<Rightarrow>
     (case extractMetadata x st (rs_Headers (ep_Response e)) resultAn (svc_Scope (sd_Service sd)) of
        Inl p \<Rightarrow> Inl p
      | Inr (hdrs, sc1) \<Rightarrow>
     (case extractMetadata x st (rs_Trailers (ep_Response e)) resultAn sc1 of
        Inl p \<Rightarrow> Inl p
      | Inr (trlrs, sc2) \<Rightarrow>
     (case buildResponseConvertData x st responseAn resultAn hdrs trlrs e
             (setServiceScope sd sc2) out True of
        Inl p \<Rightarrow> Inl p
      | Inr (serverConvert, sd1, out1) \<Rightarrow>
     (case buildResponseConvertData x st responseAn resultAn hdrs trlrs e sd1 out1 False of
        Inl p \<Rightarrow> Inl p
      | Inr (clientConvert, sd2, out2) \<Rightarrow>
     (let response =
            \<lparr>rp_StatusCode = x_statusCodeToGRPCConst x (rs_StatusCode (ep_Response e)),
             rp_Description = rs_Description (ep_Response e),
             rp_Message = None,
             rp_Headers = hdrs,
             rp_Trailers = trlrs,
             rp_ServerConvert = serverConvert,
             rp_ClientConvert = clientConvert\<rparr>
      in
      if att_Type (rs_Message (ep_Response e)) \<noteq> Empty \<or> \<not> x_IsStreaming x (ep_MethodExpr e)
      then (case collect x st sd2 seen (rs_Message (ep_Response e)) of
              Inl p \<Rightarrow> Inl p
            | Inr (message, sd3, seen1) \<Rightarrow>
                Inr (response\<lparr>rp_Message := Some message\<rparr>, sd3, seen1, out2))
      else Inr (response, sd2, seen, out2)))))))"

text \<open>
  The security requirements: the schemes of all requirements in turn. The scheme found
  by \<^verbatim>\<open>service.Scheme\<close> is duplicated without a nil check.
\<close>

fun gatherSchemes ::
  "'sc ext \<Rightarrow> MethodData \<Rightarrow> SchemeExpr list \<Rightarrow> SchemeData list \<Rightarrow> SchemeData list
     \<Rightarrow> panic + (SchemeData list \<times> SchemeData list)" where
  "gatherSchemes x md [] msgSch metSch = Inr (msgSch, metSch)"
| "gatherSchemes x md (sch # schs) msgSch metSch =
     (case x_Scheme x (md_Requirements md) (se_SchemeName sch) of
        None \<Rightarrow> Inl NilDereference
      | Some s0 \<Rightarrow>
          let s = s0\<lparr>sch_In := se_In sch\<rparr> in
          if sch_In s = ''message''
          then gatherSchemes x md schs (x_AppendScheme x msgSch s) metSch
          else gatherSchemes x md schs msgSch (x_AppendScheme x metSch s))"

text \<open>
  The endpoint data appended last is the one \<^verbatim>\<open>analyze\<close> holds in \<^verbatim>\<open>ed\<close> when it sets
  the streams.
\<close>

definition updateLastEndpoint ::
  "(EndpointData \<Rightarrow> EndpointData) \<Rightarrow> 'sc ServiceData \<Rightarrow> 'sc ServiceData" where
  "updateLastEndpoint f sd =
     (case rev (sd_Endpoints sd) of
        [] \<Rightarrow> sd
      | ed # eds \<Rightarrow> sd\<lparr>sd_Endpoints := rev eds @ [f ed]\<rparr>)"

text \<open>
  The head of the loop body of \<^verbatim>\<open>analyze\<close>: \<^verbatim>\<open>makeProtoBufMessage\<close> rewrites the
  request, streaming request and response message attributes of the endpoint in place and
  reserves names in the scope of the service. The attributes of an endpoint are separate
  values here.
\<close>

definition makeProtoBufMessages ::
  "'sc ext \<Rightarrow> store \<Rightarrow> 'sc ServiceData \<Rightarrow> GRPCEndpointExpr
     \<Rightarrow> store \<times> GRPCEndpointExpr \<times> 'sc ServiceData" where
  "makeProtoBufMessages x st0 sd0 e0 =
     (let en = x_protoBufify x (ep_Name e0) True;
          (st1, requestAtt, sc1) =
             x_makeProtoBufMessage x st0 (ep_Request e0) (en @ ''Request'')
               (svc_Scope (sd_Service sd0));
          (st2, streamingRequestAtt, sc2) =
             (if att_Type (me_StreamingPayload (ep_MethodExpr e0)) \<noteq> Empty
              then x_makeProtoBufMessage x st1 (ep_StreamingRequest e0)
                     (en @ ''StreamingRequest'') sc1
              else (st1, ep_StreamingRequest e0, sc1));
          (st3, messageAtt, sc3) =
             x_makeProtoBufMessage x st2 (rs_Message (ep_Response e0)) (en @ ''Response'') sc2
      in (st3,
          e0\<lparr>ep_Request := requestAtt, ep_StreamingRequest := streamingRequestAtt,
             ep_Response := (ep_Response e0)\<lparr>rs_Message := messageAtt\<rparr>\<rparr>,
          setServiceScope sd0 sc3))"

text \<open>The endpoint data \<^verbatim>\<open>analyze\<close> assembles, before the streams are set.\<close>

definition newEndpointData ::
  "'sc ext \<Rightarrow> store \<Rightarrow> GRPCEndpointExpr \<Rightarrow> 'sc ServiceData \<Rightarrow> MethodData \<Rightarrow> ErrorData list
     \<Rightarrow> RequestData \<Rightarrow> ResponseData \<Rightarrow> SchemeData list \<Rightarrow> SchemeData list \<Rightarrow> EndpointData" where
  "newEndpointData x st e sd md errors request response msgSch metSch =
     (let svc = sd_Service sd;
          payloadAn = PayloadAnalyzer (me_Payload (ep_MethodExpr e)) (svc_PkgName svc);
          resultAn = ResultAnalyzer (me_Result (ep_MethodExpr e)) (svc_PkgName svc)
      in \<lparr>ed_ServiceName = svc_Name svc,
          ed_PkgName = sd_PkgName sd,
          ed_ServicePkgName = svc_PkgName svc,
          ed_Method = md,
          ed_PayloadRef = (if att_Type (me_Payload (ep_MethodExpr e)) \<noteq> Empty
                           then x_Ref x st payloadAn True else []),
          ed_ResultRef = (if att_Type (me_Result (ep_MethodExpr e)) \<noteq> Empty
                          then x_Ref x st resultAn True else []),
          ed_ViewedResultRef = (case md_ViewedResult md of
                                  Some vr \<Rightarrow> vr_FullRef vr | None \<Rightarrow> []),
          ed_Request = request,
          ed_Response = response,
          ed_MetadataSchemes = metSch,
          ed_MessageSchemes = msgSch,
          ed_Errors = errors,
          ed_ServerStruct = sd_ServerStruct sd,
          ed_ServerInterface = sd_ServerInterface sd,
          ed_ServerStream = None,
          ed_ClientStruct = sd_ClientStruct sd,
          ed_ClientInterface = sd_ClientInterface sd,
          ed_ClientStream = None\<rparr>)"

text \<open>
  The body of the loop of \<^verbatim>\<open>analyze\<close> for one endpoint, on the store, the service data,
  the map \<^verbatim>\<open>seen\<close> and the output. The method data of \<^verbatim>\<open>svc.Method\<close> is read without
  a nil check.
\<close>

type_synonym 'sc run = "store \<times> 'sc ServiceData \<times> string set \<times> string list"

definition analyzeEndpoint ::
  "'sc ext \<Rightarrow> 'sc run \<Rightarrow> GRPCEndpointExpr \<Rightarrow> panic + 'sc run" where
  "analyzeEndpoint x run e0 =
     (case run of (st0, sd0, seen, out) \<Rightarrow>
      case makeProtoBufMessages x st0 sd0 e0 of (st, e, sd) \<Rightarrow>
      case x_Method x (sd_Service sd) (ep_Name e) of
        None \<Rightarrow> Inl NilDereference
      | Some md \<Rightarrow>
     (let payloadAn = PayloadAnalyzer (me_Payload (ep_MethodExpr e)) (svc_PkgName (sd_Service sd));
          errors = buildErrorsData x st e sd
      in
      case requestData x st e payloadAn sd seen out of
        Inl p \<Rightarrow> Inl p
      | Inr (request, sd1, seen1, out1) \<Rightarrow>
     (case responseData x st e sd1 seen1 out1 of
        Inl p \<Rightarrow> Inl p
      | Inr (response, sd2, seen2, out2) \<Rightarrow>
     (case gatherSchemes x md (concat (ep_Requirements e)) [] [] of
        Inl p \<Rightarrow> Inl p
      | Inr (msgSch, metSch) \<Rightarrow>
     (let ed = newEndpointData x st e sd2 md errors request response msgSch metSch;
          sd3 = sd2\<lparr>sd_Endpoints := sd_Endpoints sd2 @ [ed]\<rparr>
      in
      if x_IsStreaming x (ep_MethodExpr e)
      then (case buildStreamData x st e sd3 out2 True of
              Inl p \<Rightarrow> Inl p
            | Inr (serverStream, sd4, out3) \<Rightarrow>
                (case buildStreamData x st e
                        (updateLastEndpoint (\<lambda>ed. ed\<lparr>ed_ServerStream := Some serverStream\<rparr>) sd4)
                        out3 False of
                   Inl p \<Rightarrow> Inl p
                 | Inr (clientStream, sd5, out4) \<Rightarrow>
                     Inr (st,
                          updateLastEndpoint (\<lambda>ed. ed\<lparr>ed_ClientStream := Some clientStream\<rparr>) sd5,
                          seen2, out4)))
      else Inr (st, sd3, seen2, out2))))))"

fun analyzeEndpoints ::
  "'sc ext \<Rightarrow> 'sc run \<Rightarrow> GRPCEndpointExpr list \<Rightarrow> panic + 'sc run" where
  "analyzeEndpoints x run [] = Inr run"
| "analyzeEndpoints x run (e # es) =
     (case analyzeEndpoint x run e of
        Inl p \<Rightarrow> Inl p
      | Inr run1 \<Rightarrow> analyzeEndpoints x run1 es)"

text \<open>
  \<^verbatim>\<open>analyze\<close>. The service data of \<^verbatim>\<open>service.Services.Get\<close> is dereferenced without a
  nil check. The result is the service data, with the store and the output the run
  leaves.
\<close>

definition analyze ::
  "'sc ext \<Rightarrow> store \<Rightarrow> string list \<Rightarrow> GRPCServiceExpr
     \<Rightarrow> panic + ('sc ServiceData \<times> store \<times> string list)" where
  "analyze x st out gs =
     (case x_Services x (gs_Name gs) of
        None \<Rightarrow> Inl NilDereference
      | Some svc \<Rightarrow>
          let svcVarN = x_Goify x (svc_Name svc) True;
              sd = \<lparr>sd_Service = svc,
                    sd_PkgName = pbPkgName,
                    sd_Name = svc_Name svc,
                    sd_Description = svc_Description svc,
                    sd_Endpoints = [],
                    sd_Messages = [],
                    sd_ServerStruct = ''Server'',
                    sd_ClientStruct = ''Client'',
                    sd_ServerInit = ''New'',
                    sd_ClientInit = ''NewClient'',
                    sd_ServerInterface = svcVarN @ ''Server'',
                    sd_ClientInterface = svcVarN @ ''Client'',
                    sd_ClientInterfaceInit = pbPkgName @ ''.New'' @ svcVarN @ ''Client'',
                    sd_TransformHelpers = [],
                    sd_Validations = [],
                    sd_Scope = x_NewNameScope x\<rparr>
          in (case analyzeEndpoints x (st, sd, {}, out) (gs_GRPCEndpoints gs) of
                Inl p \<Rightarrow> Inl p
              | Inr (st', sd', seen', out') \<Rightarrow> Inr (sd', st', out')))"

section \<open>ServicesData.Get\<close>

text \<open>
  \<^verbatim>\<open>ServicesData\<close> is a Go map from service names to service data. \<^verbatim>\<open>Get\<close> returns
  the pointer it finds or stores (\<open>None\<close> for nil) and leaves the map, the store and
  the output.
\<close>

type_synonym 'sc ServicesData = "string \<rightharpoonup> 'sc ServiceData"

definition Get ::
  "'sc ext \<Rightarrow> 'sc ServicesData \<Rightarrow> store \<Rightarrow> string list \<Rightarrow> string
     \<Rightarrow> panic + ('sc ServiceData option \<times> 'sc ServicesData \<times> store \<times> string list)" where
  "Get x d st out name =
     (case d name of
        Some data \<Rightarrow> Inr (Some data, d, st, out)
      | None \<Rightarrow>
          (case x_GRPCService x name of
             None \<Rightarrow> Inr (None, d, st, out)
           | Some service \<Rightarrow>
               (case analyze x st out service of
                  Inl p \<Rightarrow> Inl p
                | Inr (sd, st', out') \<Rightarrow> Inr (Some sd, d(name \<mapsto> sd), st', out'))))"

section \<open>Notions used in the statements\<close>

text \<open>
  What a call of \<^verbatim>\<open>collectMessages\<close> leaves: the names of the messages it returns are
  new and pairwise different, they are what the call adds to the seen set, and of the
  service data only the scope and the list of validations change.
\<close>

definition collect_post ::
  "'sc ServiceData \<Rightarrow> string set \<Rightarrow> UserTypeData list \<times> 'sc ServiceData \<times> string set \<Rightarrow> bool" where
  "collect_post sd seen res =
     (case res of (data, sd', seen') \<Rightarrow>
        seen' = seen \<union> set (map utd_Name data) \<and>
        distinct (map utd_Name data) \<and>
        set (map utd_Name data) \<inter> seen = {} \<and>
        (\<exists>sc vs. sd' = sd\<lparr>sd_Scope := sc, sd_Validations := sd_Validations sd @ vs\<rparr>))"

text \<open>
  The message \<^verbatim>\<open>collectMessages\<close> emits for a user type that is not yet seen, and the
  service data it has written when it descends into the type's own attribute.
\<close>

definition topMessage ::
  "'sc ext \<Rightarrow> store \<Rightarrow> AttributeAnalyzer \<Rightarrow> AttributeExpr \<Rightarrow> nat \<Rightarrow> UserTypeExpr
     \<Rightarrow> 'sc ServiceData \<Rightarrow> UserTypeData" where
  "topMessage x st an at r dt sd =
     \<lparr>utd_Name = ut_TypeName dt,
      utd_VarName = fst (x_protoBufMessageName x st at (sd_Scope sd)),
      utd_Description = att_Description (ut_Attribute dt),
      utd_Def = x_Def x st (Dup an (ut_Attribute dt) True),
      utd_Ref = x_Ref x st an True,
      utd_Type = r\<rparr>"

definition afterTopMessage ::
  "'sc ext \<Rightarrow> store \<Rightarrow> AttributeAnalyzer \<Rightarrow> AttributeExpr \<Rightarrow> 'sc ServiceData \<Rightarrow> 'sc ServiceData" where
  "afterTopMessage x st an at sd =
     (let (name, sc) = x_protoBufMessageName x st at (sd_Scope sd);
          vDef = x_RecursiveValidationCode x st an ''message''
      in sd\<lparr>sd_Scope := sc,
            sd_Validations := sd_Validations sd @
              (if vDef \<noteq> []
               then [\<lparr>vd_Name = ''Validate'' @ name, vd_Def = vDef, vd_ArgName = ''message'',
                      vd_SrcName = name, vd_SrcRef = x_Ref x st an True\<rparr>]
               else [])\<rparr>)"

text \<open>
  The invariant of \<^verbatim>\<open>analyze\<close>: the seen set holds the names of the messages of the
  service, and no two of these messages have the same name.
\<close>

definition messages_inv :: "'sc ServiceData \<Rightarrow> string set \<Rightarrow> bool" where
  "messages_inv sd seen =
     (seen = set (map utd_Name (sd_Messages sd)) \<and> distinct (map utd_Name (sd_Messages sd)))"

text \<open>The conversion builders change the scope of the service and the transform helpers only.\<close>

definition conv_frame :: "'sc ServiceData \<Rightarrow> 'sc ServiceData \<Rightarrow> bool" where
  "conv_frame sd sd' =
     (\<exists>sc hs. sd' = sd\<lparr>sd_Service := (sd_Service sd)\<lparr>svc_Scope := sc\<rparr>,
                       sd_TransformHelpers := hs\<rparr>)"

definition cache_sound :: "'sc ext \<Rightarrow> 'sc ServicesData \<Rightarrow> bool" where
  "cache_sound x d = (\<forall>n. d n \<noteq> None \<longrightarrow> x_GRPCService x n \<noteq> None)"

text \<open>
  The one argument \<^verbatim>\<open>buildConvertData\<close> gives a constructor before the hook of the
  caller runs: the source value. For the server side of a request it is the unary
  message; the first of the CLI arguments of a request is the same record.
\<close>

definition bodyArg :: "'sc ext \<Rightarrow> store \<Rightarrow> AttributeAnalyzer \<Rightarrow> string \<Rightarrow> InitArgData" where
  "bodyArg x st source sourceVar =
     \<lparr>ia_Name = sourceVar, ia_Ref = sourceVar, ia_FieldName = [],
      ia_TypeName = x_Name x st source True, ia_TypeRef = x_Ref x st source True,
      ia_Pointer = False, ia_Required = False, ia_DefaultValue = None, ia_Validate = []\<rparr>"

text \<open>
  The decision table of the stream adapters (spec 4.5), by role: what a stream data of
  the role sends and what it receives, as the source analyzer, the target analyzer and the
  two variable names of the conversion, or nothing when the row does not apply. The
  server sends the result and receives the streaming payload, the client sends the
  streaming payload and receives the result; a send converts to the wire type, a receive
  from it.
\<close>

definition sendAdapter ::
  "GRPCEndpointExpr \<Rightarrow> 'sc ServiceData \<Rightarrow> MethodData \<Rightarrow> AttributeAnalyzer \<Rightarrow> bool
     \<Rightarrow> (AttributeAnalyzer \<times> AttributeAnalyzer \<times> string \<times> string) option" where
  "sendAdapter e sd md resultAn svr =
     (if svr
      then (if att_Type (me_Result (ep_MethodExpr e)) \<noteq> Empty
            then Some (resultAn,
                       newProtoBufAnalyzer (rs_Message (ep_Response e)) (sd_PkgName sd),
                       if md_ViewedResult md \<noteq> None then ''vresult'' else ''result'', ''v'')
            else None)
      else (if att_Type (me_StreamingPayload (ep_MethodExpr e)) \<noteq> Empty
            then Some (PayloadAnalyzer (me_StreamingPayload (ep_MethodExpr e))
                         (svc_PkgName (sd_Service sd)),
                       newProtoBufAnalyzer (ep_StreamingRequest e) (sd_PkgName sd),
                       ''spayload'', ''v'')
            else None))"

definition recvAdapter ::
  "GRPCEndpointExpr \<Rightarrow> 'sc ServiceData \<Rightarrow> MethodData \<Rightarrow> AttributeAnalyzer \<Rightarrow> bool
     \<Rightarrow> (AttributeAnalyzer \<times> AttributeAnalyzer \<times> string \<times> string) option" where
  "recvAdapter e sd md resultAn svr =
     (if svr
      then (if att_Type (me_StreamingPayload (ep_MethodExpr e)) \<noteq> Empty
            then Some (newProtoBufAnalyzer (ep_StreamingRequest e) (sd_PkgName sd),
                       PayloadAnalyzer (me_StreamingPayload (ep_MethodExpr e))
                         (svc_PkgName (sd_Service sd)),
                       ''v'', ''spayload'')
            else None)
      else (if att_Type (me_Result (ep_MethodExpr e)) \<noteq> Empty
            then Some (newProtoBufAnalyzer (rs_Message (ep_Response e)) (sd_PkgName sd),
                       resultAn,
                       ''v'', if md_ViewedResult md \<noteq> None then ''vresult'' else ''result'')
            else None))"

text \<open>A conversion is there exactly when its row applies and the transform of the row succeeds.\<close>

definition adapterBuilt ::
  "'sc ext \<Rightarrow> store \<Rightarrow> (AttributeAnalyzer \<times> AttributeAnalyzer \<times> string \<times> string) option \<Rightarrow> bool
     \<Rightarrow> bool" where
  "adapterBuilt x st row proto =
     (case row of
        None \<Rightarrow> False
      | Some (source, target, sourceVar, targetVar) \<Rightarrow>
          \<not> isl (x_protoBufTransform x st source target sourceVar targetVar proto))"

text \<open>
  The user types an attribute mentions before any user type is entered, and the user types
  that can be reached from a set of addresses through the definitions in the store.
\<close>

fun typeRefs :: "DataType \<Rightarrow> nat set"
  and attRefs :: "AttributeExpr \<Rightarrow> nat set"
  and fieldRefs :: "(string \<times> AttributeExpr) list \<Rightarrow> nat set" where
  "typeRefs (Primitive k) = {}"
| "typeRefs Empty = {}"
| "typeRefs (UserType r) = {r}"
| "typeRefs (Object fs) = fieldRefs fs"
| "typeRefs (Array e) = attRefs e"
| "typeRefs (Map k e) = attRefs k \<union> attRefs e"
| "attRefs (AttributeExpr t d) = typeRefs t"
| "fieldRefs [] = {}"
| "fieldRefs (f # fs) = attRefs (snd f) \<union> fieldRefs fs"

inductive_set reachable :: "store \<Rightarrow> nat set \<Rightarrow> nat set" for st :: store and R :: "nat set" where
  start: "r \<in> R \<Longrightarrow> r \<in> reachable st R"
| step: "r \<in> reachable st R \<Longrightarrow> userType st r = Some dt \<Longrightarrow> r' \<in> attRefs (ut_Attribute dt)
           \<Longrightarrow> r' \<in> reachable st R"

definition namesOf :: "store \<Rightarrow> nat set \<Rightarrow> string set" where
  "namesOf st R = {ut_TypeName dt | r dt. r \<in> R \<and> userType st r = Some dt}"


section \<open>An example design\<close>

text \<open>
  A concrete design to run the model on: stand-ins for the functions of the other
  packages, and the \<^verbatim>\<open>add\<close> method of the calculator example
  (\<^verbatim>\<open>examples/basic\<close>: two \<^verbatim>\<open>int32\<close> operands, an \<^verbatim>\<open>int32\<close> result). The flag of
  \<open>demo_ext\<close> says whether the transform succeeds.
\<close>

definition demo_AsObject :: "store \<Rightarrow> DataType \<Rightarrow> (string \<times> AttributeExpr) list option" where
  "demo_AsObject st dt =
     (case dt of
        Object fs \<Rightarrow> Some fs
      | UserType r \<Rightarrow>
          (case userType st r of
             None \<Rightarrow> None
           | Some u \<Rightarrow> (case att_Type (ut_Attribute u) of Object fs \<Rightarrow> Some fs | _ \<Rightarrow> None))
      | _ \<Rightarrow> None)"

definition demo_IsPrimitive :: "store \<Rightarrow> DataType \<Rightarrow> bool" where
  "demo_IsPrimitive st dt = (case dt of Primitive k \<Rightarrow> True | _ \<Rightarrow> False)"

definition demo_Kind :: "store \<Rightarrow> DataType \<Rightarrow> Kind" where
  "demo_Kind st dt =
     (case dt of
        Primitive k \<Rightarrow> k
      | Empty \<Rightarrow> AnyKind
      | UserType r \<Rightarrow> UserTypeKind
      | Object fs \<Rightarrow> ObjectKind
      | Array e \<Rightarrow> ArrayKind
      | Map k e \<Rightarrow> MapKind)"

definition demo_typeName :: "store \<Rightarrow> AttributeExpr \<Rightarrow> string" where
  "demo_typeName st at =
     (case att_Type at of
        UserType r \<Rightarrow> (case userType st r of Some u \<Rightarrow> ut_TypeName u | None \<Rightarrow> [])
      | _ \<Rightarrow> [])"

definition demo_makeProtoBufMessage ::
  "store \<Rightarrow> AttributeExpr \<Rightarrow> string \<Rightarrow> string list \<Rightarrow> store \<times> AttributeExpr \<times> string list" where
  "demo_makeProtoBufMessage st att tname sc =
     (case att_Type att of
        UserType r \<Rightarrow> (st, att, sc)
      | Object fs \<Rightarrow>
          (st @ [\<lparr>ut_TypeName = tname, ut_Attribute = att\<rparr>],
           AttributeExpr (UserType (length st)) (att_Description att), sc)
      | Empty \<Rightarrow>
          (st @ [\<lparr>ut_TypeName = tname, ut_Attribute = AttributeExpr (Object []) []\<rparr>],
           AttributeExpr (UserType (length st)) (att_Description att), sc)
      | _ \<Rightarrow>
          (st @ [\<lparr>ut_TypeName = tname,
                  ut_Attribute = AttributeExpr (Object [(''field'', att)]) []\<rparr>],
           AttributeExpr (UserType (length st)) (att_Description att), sc))"

definition demo_stream :: "string \<Rightarrow> bool \<Rightarrow> StreamDataS" where
  "demo_stream role close =
     \<lparr>ss_VarName = role @ ''Stream'', ss_Interface = role @ ''StreamIface'',
      ss_SendName = ''Send'', ss_RecvName = ''Recv'', ss_MustClose = close\<rparr>"

definition demo_ext :: "bool \<Rightarrow> string list ext" where
  "demo_ext ok =
     \<lparr>x_Name = (\<lambda>st an q. demo_typeName st (the (an_Attribute an))),
      x_Ref = (\<lambda>st an q. CHR ''*'' # demo_typeName st (the (an_Attribute an))),
      x_Def = (\<lambda>st an. []),
      x_DefaultValue = (\<lambda>st an. None),
      x_RecursiveValidationCode = (\<lambda>st an v. []),
      x_protoBufMessageName = (\<lambda>st at sc. (demo_typeName st at, sc)),
      x_protoBufTransform =
        (\<lambda>st src tgt sv tv proto.
           if ok then Inr (tv @ '' := '' @ sv, []) else Inl ''types do not match''),
      x_AppendHelpers = (\<lambda>hs hs'. hs @ hs'),
      x_makeProtoBufMessage = demo_makeProtoBufMessage,
      x_protoBufify = (\<lambda>s u. s),
      x_Goify = (\<lambda>s u. s),
      x_Unique = (\<lambda>sc n. (n, n # sc)),
      x_NewNameScope = [],
      x_GoFullTypeRef = (\<lambda>st sc at pkg. pkg @ ''.'' @ demo_typeName st at),
      x_IsPrimitive = demo_IsPrimitive,
      x_IsObject = (\<lambda>st dt. demo_AsObject st dt \<noteq> None),
      x_AsObject = demo_AsObject,
      x_AsArray = (\<lambda>st dt. case dt of Array e \<Rightarrow> Some e | _ \<Rightarrow> None),
      x_AsMap = (\<lambda>st dt. case dt of Map k e \<Rightarrow> Some (k, e) | _ \<Rightarrow> None),
      x_Kind = demo_Kind,
      x_IsStreaming = (\<lambda>m. me_Stream m \<noteq> NoStreamKind),
      x_IsPayloadStreaming =
        (\<lambda>m. me_Stream m = ClientStreamKind \<or> me_Stream m = BidirectionalStreamKind),
      x_statusCodeToGRPCConst = (\<lambda>c. ''codes.OK''),
      x_Services =
        (\<lambda>n. Some \<lparr>svc_Name = n, svc_Description = [], svc_PkgName = n,
                    svc_StructName = ''Service'', svc_ViewsPkg = n @ ''views'',
                    svc_Scope = [], svc_ViewScope = []\<rparr>),
      x_Method =
        (\<lambda>svc n. Some \<lparr>md_Name = n, md_VarName = n, md_ViewedResult = None,
                        md_ServerStream = Some (demo_stream ''Server'' False),
                        md_ClientStream = Some (demo_stream ''Client'' True),
                        md_Requirements = []\<rparr>),
      x_Scheme = (\<lambda>reqs n. None),
      x_AppendScheme = (\<lambda>ss s. ss @ [s]),
      x_GRPCService = (\<lambda>n. None)\<rparr>"

definition int32 :: AttributeExpr where
  "int32 = AttributeExpr (Primitive Int32Kind) []"

definition demo_add :: GRPCEndpointExpr where
  "demo_add =
     \<lparr>ep_Name = ''add'',
      ep_MethodExpr =
        \<lparr>me_Payload = AttributeExpr (Object [(''a'', int32), (''b'', int32)]) [],
         me_Result = int32,
         me_StreamingPayload = AttributeExpr Empty [],
         me_Stream = NoStreamKind\<rparr>,
      ep_Request = AttributeExpr (Object [(''a'', int32), (''b'', int32)]) [],
      ep_StreamingRequest = AttributeExpr Empty [],
      ep_Response =
        \<lparr>rs_StatusCode = 0, rs_Description = [], rs_Message = int32,
         rs_Headers = [], rs_Trailers = []\<rparr>,
      ep_Metadata = [],
      ep_Requirements = [],
      ep_GRPCErrors = []\<rparr>"

definition demo_calc :: GRPCServiceExpr where
  "demo_calc = \<lparr>gs_Name = ''calc'', gs_GRPCEndpoints = [demo_add]\<rparr>"

definition demo_sd :: "string list ServiceData" where
  "demo_sd =
     \<lparr>sd_Service = the (x_Services (demo_ext True) ''calc''),
      sd_PkgName = pbPkgName, sd_Name = ''calc'', sd_Description = [],
      sd_Endpoints = [], sd_Messages = [],
      sd_ServerStruct = ''Server'', sd_ClientStruct = ''Client'',
      sd_ServerInit = ''New'', sd_ClientInit = ''NewClient'',
      sd_ServerInterface = ''calcServer'', sd_ClientInterface = ''calcClient'',
      sd_ClientInterfaceInit = ''pb.NewcalcClient'',
      sd_TransformHelpers = [], sd_Validations = [], sd_Scope = []\<rparr>"

text \<open>
  A store with a type that refers to itself and to a second type: a tree whose children
  are trees and whose tags are a map from strings to tags.
\<close>

definition demo_store :: store where
  "demo_store =
     [\<lparr>ut_TypeName = ''Tree'',
       ut_Attribute = AttributeExpr
         (Object [(''children'', AttributeExpr (Array (AttributeExpr (UserType 0) [])) []),
                  (''tags'', AttributeExpr
                     (Map (AttributeExpr (Primitive StringKind) [])
                          (AttributeExpr (UserType 1) [])) [])]) []\<rparr>,
      \<lparr>ut_TypeName = ''Tag'',
       ut_Attribute = AttributeExpr (Object [(''name'', AttributeExpr (Primitive StringKind) [])]) []\<rparr>]"

definition demo_an :: "DataType \<Rightarrow> AttributeAnalyzer" where
  "demo_an dt = newProtoBufAnalyzer (AttributeExpr dt []) pbPkgName"

definition demo_metadata :: MappedAttributeExpr where
  "demo_metadata =
     [(''token'', ''authorization'', False, AttributeExpr (Primitive StringKind) []),
      (''ids'', ''x-ids'', False, AttributeExpr (Array (AttributeExpr (Primitive StringKind) [])) []),
      (''tenant'', ''x-tenant'', True, AttributeExpr (Primitive StringKind) [])]"


definition demo_design :: "string \<Rightarrow> GRPCServiceExpr option" where
  "demo_design n = (if n = ''calc'' then Some demo_calc else None)"

definition demo_chat :: GRPCEndpointExpr where
  "demo_chat =
     \<lparr>ep_Name = ''chat'',
      ep_MethodExpr =
        \<lparr>me_Payload = AttributeExpr Empty [],
         me_Result = AttributeExpr (Primitive StringKind) [],
         me_StreamingPayload = AttributeExpr (Primitive StringKind) [],
         me_Stream = BidirectionalStreamKind\<rparr>,
      ep_Request = AttributeExpr Empty [],
      ep_StreamingRequest = AttributeExpr (Primitive StringKind) [],
      ep_Response =
        \<lparr>rs_StatusCode = 0, rs_Description = [],
         rs_Message = AttributeExpr (Primitive StringKind) [],
         rs_Headers = [], rs_Trailers = []\<rparr>,
      ep_Metadata = [],
      ep_Requirements = [],
      ep_GRPCErrors = []\<rparr>"

definition demo_made :: "GRPCEndpointExpr \<Rightarrow> store \<times> GRPCEndpointExpr \<times> string list ServiceData" where
  "demo_made e = makeProtoBufMessages (demo_ext True) [] demo_sd e"



text \<open>
  An endpoint whose payload is streamed by the client: the file name travels as metadata,
  the chunks as the streaming payload.
\<close>

definition demo_upload :: GRPCEndpointExpr where
  "demo_upload =
     \<lparr>ep_Name = ''upload'',
      ep_MethodExpr =
        \<lparr>me_Payload = AttributeExpr (Object [(''name'', AttributeExpr (Primitive StringKind) [])]) [],
         me_Result = AttributeExpr (Primitive StringKind) [],
         me_StreamingPayload = AttributeExpr (Primitive BytesKind) [],
         me_Stream = ClientStreamKind\<rparr>,
      ep_Request = AttributeExpr (Object []) [],
      ep_StreamingRequest = AttributeExpr (Primitive BytesKind) [],
      ep_Response =
        \<lparr>rs_StatusCode = 0, rs_Description = [],
         rs_Message = AttributeExpr (Primitive StringKind) [],
         rs_Headers = [], rs_Trailers = []\<rparr>,
      ep_Metadata = [(''name'', ''name'', True, AttributeExpr (Primitive StringKind) [])],
      ep_Requirements = [],
      ep_GRPCErrors = []\<rparr>"

definition demo_uploadMD :: "MetadataData list" where
  "demo_uploadMD =
     fst (projr (extractMetadata (demo_ext True) [] (ep_Metadata demo_upload)
       (PayloadAnalyzer (me_Payload (ep_MethodExpr demo_upload)) ''calc'') []))"

text \<open>An endpoint without a payload, and the service that has it as its one endpoint.\<close>

definition demo_ping :: GRPCEndpointExpr where
  "demo_ping =
     \<lparr>ep_Name = ''ping'',
      ep_MethodExpr =
        \<lparr>me_Payload = AttributeExpr Empty [],
         me_Result = int32,
         me_StreamingPayload = AttributeExpr Empty [],
         me_Stream = NoStreamKind\<rparr>,
      ep_Request = AttributeExpr Empty [],
      ep_StreamingRequest = AttributeExpr Empty [],
      ep_Response =
        \<lparr>rs_StatusCode = 0, rs_Description = [], rs_Message = int32,
         rs_Headers = [], rs_Trailers = []\<rparr>,
      ep_Metadata = [],
      ep_Requirements = [],
      ep_GRPCErrors = []\<rparr>"

definition demo_pinger :: GRPCServiceExpr where
  "demo_pinger = \<lparr>gs_Name = ''pinger'', gs_GRPCEndpoints = [demo_ping]\<rparr>"

definition demo_noresult :: GRPCEndpointExpr where
  "demo_noresult =
     demo_add\<lparr>ep_Name := ''store'',
       ep_MethodExpr := (ep_MethodExpr demo_add)\<lparr>me_Result := AttributeExpr Empty []\<rparr>,
       ep_Response := (ep_Response demo_add)\<lparr>rs_Message := AttributeExpr Empty []\<rparr>\<rparr>"

definition demo_chatter :: GRPCServiceExpr where
  "demo_chatter = \<lparr>gs_Name = ''chatter'', gs_GRPCEndpoints = [demo_chat]\<rparr>"

text \<open>What the loop body of \<^verbatim>\<open>analyze\<close> leaves for the chat endpoint.\<close>

definition demo_chat_run :: "string list run" where
  "demo_chat_run = projr (analyzeEndpoint (demo_ext True) ([], demo_sd, {}, []) demo_chat)"

text \<open>
  Two user types of one name: the second is reached through the first only, and has a
  tag that the first has not.
\<close>

definition demo_homonyms :: store where
  "demo_homonyms =
     [\<lparr>ut_TypeName = ''Node'',
       ut_Attribute = AttributeExpr (Object [(''next'', AttributeExpr (UserType 1) [])]) []\<rparr>,
      \<lparr>ut_TypeName = ''Node'',
       ut_Attribute = AttributeExpr (Object [(''tag'', AttributeExpr (UserType 2) [])]) []\<rparr>,
      \<lparr>ut_TypeName = ''Tag'',
       ut_Attribute = AttributeExpr (Object []) []\<rparr>]"

section \<open>Lemmas\<close>

lemma collect_post_nil: "collect_post sd seen ([], sd, seen)"
  unfolding collect_post_def
  by (auto intro!: exI[of _ "sd_Scope sd"] exI[of _ "[]"])

lemma collect_post_seq:
  assumes "collect_post sd seen (d1, sd1, seen1)" "collect_post sd1 seen1 (d2, sd2, seen2)"
  shows "collect_post sd seen (d1 @ d2, sd2, seen2)"
  using assms unfolding collect_post_def
  apply clarsimp
  apply (rule conjI, blast)
  apply (rule conjI, blast)
  apply (rule conjI, blast)
  subgoal for sc vs sca vsa
    by (rule exI[of _ sca], rule exI[of _ "vs @ vsa"]) simp
  done

lemma collectMessages_unseen:
  assumes "an_Attribute an = Some at" "att_Type at = UserType r" "userType st r = Some dt"
    "ut_TypeName dt \<notin> seen"
  shows "collectMessages x st an sd seen =
     (case collectMessages x st (Dup an (ut_Attribute dt) True) (afterTopMessage x st an at sd)
             (insert (ut_TypeName dt) seen) of
        (data, sd3, seen3) \<Rightarrow> (topMessage x st an at r dt sd # data, sd3, seen3))"
  using assms
  by (simp add: collectMessages.simps[of x st an sd seen] Let_def topMessage_def
      afterTopMessage_def split: prod.splits)

lemma collect_post_cons:
  assumes "utd_Name d = n" "n \<notin> seen" "collect_post sd2 (insert n seen) (data, sd3, seen3)"
    "\<exists>sc vs. sd2 = sd\<lparr>sd_Scope := sc, sd_Validations := sd_Validations sd @ vs\<rparr>"
  shows "collect_post sd seen (d # data, sd3, seen3)"
  using assms unfolding collect_post_def
  apply clarsimp
  subgoal for sc vs sca vsa
    by (rule exI[of _ sca], rule exI[of _ "vs @ vsa"]) simp
  done

lemma afterTopMessage_frame:
  "\<exists>sc vs. afterTopMessage x st an at sd = sd\<lparr>sd_Scope := sc, sd_Validations := sd_Validations sd @ vs\<rparr>"
proof -
  obtain name sc where nm: "x_protoBufMessageName x st at (sd_Scope sd) = (name, sc)"
    by (cases "x_protoBufMessageName x st at (sd_Scope sd)") auto
  show ?thesis
    unfolding afterTopMessage_def Let_def nm prod.case
    by (intro exI) (rule refl)
qed

lemma collect_post_all:
  "collect_post sd seen (collectMessages x st an sd seen)"
  "collect_post sd seen (collectFields x st an fs sd seen)"
proof (induct x st an sd seen and x st an fs sd seen rule: collectMessages_collectFields.induct)
  case (1 x st an sd seen)
  note unf = collectMessages.simps[of x st an sd seen]
  show ?case
  proof (cases "an_Attribute an")
    case None
    then show ?thesis by (simp add: unf collect_post_nil)
  next
    case (Some at)
    show ?thesis
    proof (cases "att_Type at")
      case (UserType r)
      show ?thesis
      proof (cases "userType st r")
        case None
        with Some UserType show ?thesis by (simp add: unf collect_post_nil)
      next
        case (Some dt)
        note dt = this
        show ?thesis
        proof (cases "ut_TypeName dt \<in> seen")
          case True
          with \<open>an_Attribute an = Some at\<close> UserType dt show ?thesis
            by (simp add: unf collect_post_nil)
        next
          case False
          obtain name sc where nm: "x_protoBufMessageName x st at (sd_Scope sd) = (name, sc)"
            by (cases "x_protoBufMessageName x st at (sd_Scope sd)") auto
          note ih = 1(1)[OF \<open>an_Attribute an = Some at\<close> UserType dt False refl nm[symmetric] refl refl refl refl refl]
          have st2: "(if x_RecursiveValidationCode x st an ''message'' \<noteq> []
                then sd\<lparr>sd_Scope := sc\<rparr>\<lparr>sd_Validations := sd_Validations (sd\<lparr>sd_Scope := sc\<rparr>) @
                   [\<lparr>vd_Name = ''Validate'' @ name,
                     vd_Def = x_RecursiveValidationCode x st an ''message'',
                     vd_ArgName = ''message'', vd_SrcName = name,
                     vd_SrcRef = x_Ref x st an True\<rparr>]\<rparr>
                else sd\<lparr>sd_Scope := sc\<rparr>) = afterTopMessage x st an at sd"
            by (simp add: afterTopMessage_def nm)
          obtain data sd3 seen3 where r: "collectMessages x st (Dup an (ut_Attribute dt) True)
              (afterTopMessage x st an at sd) (insert (ut_TypeName dt) seen) = (data, sd3, seen3)"
            by (cases "collectMessages x st (Dup an (ut_Attribute dt) True)
              (afterTopMessage x st an at sd) (insert (ut_TypeName dt) seen)") auto
          from ih have p: "collect_post (afterTopMessage x st an at sd)
              (insert (ut_TypeName dt) seen) (data, sd3, seen3)"
            unfolding st2 r .
          have "collect_post sd seen (topMessage x st an at r dt sd # data, sd3, seen3)"
            by (rule collect_post_cons[OF _ False p afterTopMessage_frame])
               (simp add: topMessage_def)
          then show ?thesis
            by (simp add: collectMessages_unseen[OF \<open>an_Attribute an = Some at\<close> UserType dt False] r)
        qed
      qed
    next
      case (Object fs)
      with 1(2)[OF Some Object] Some show ?thesis by (simp add: unf)
    next
      case (Array e)
      with 1(3)[OF Some Array] Some show ?thesis by (simp add: unf)
    next
      case (Map k e)
      obtain d1 sd1 seen1 where r1: "collectMessages x st (Dup an k True) sd seen = (d1, sd1, seen1)"
        by (cases "collectMessages x st (Dup an k True) sd seen") auto
      obtain d2 sd2 seen2 where r2: "collectMessages x st (Dup an e True) sd1 seen1 = (d2, sd2, seen2)"
        by (cases "collectMessages x st (Dup an e True) sd1 seen1") auto
      from 1(4)[OF Some Map] r1 have a: "collect_post sd seen (d1, sd1, seen1)" by simp
      from 1(5)[OF Some Map refl r1[symmetric] refl] r2
      have b: "collect_post sd1 seen1 (d2, sd2, seen2)" by simp
      show ?thesis using Some Map r1 r2 collect_post_seq[OF a b]
        by (simp add: unf)
    qed (use Some in \<open>simp_all add: unf collect_post_nil\<close>)
  qed
next
  case (2 x st an sd seen)
  then show ?case by (simp add: collect_post_nil)
next
  case (3 x st an f fs sd seen)
  obtain d1 sd1 seen1 where r1: "collectMessages x st (Dup an (snd f) True) sd seen = (d1, sd1, seen1)"
    by (cases "collectMessages x st (Dup an (snd f) True) sd seen") auto
  obtain d2 sd2 seen2 where r2: "collectFields x st an fs sd1 seen1 = (d2, sd2, seen2)"
    by (cases "collectFields x st an fs sd1 seen1") auto
  from 3(1) r1 have a: "collect_post sd seen (d1, sd1, seen1)" by simp
  from 3(2)[OF refl r1[symmetric] refl] r2
  have b: "collect_post sd1 seen1 (d2, sd2, seen2)" by simp
  show ?case using r1 r2 collect_post_seq[OF a b] by simp
qed

lemma collectMessages_frame:
  "collectMessages x st an sd seen = (data, sd', seen') \<Longrightarrow>
     \<exists>sc vs. sd' = sd\<lparr>sd_Scope := sc, sd_Validations := sd_Validations sd @ vs\<rparr>"
  using collect_post_all(1)[of sd seen x st an] by (simp add: collect_post_def)



lemma conv_frame_refl: "conv_frame sd sd"
  unfolding conv_frame_def
  by (rule exI[of _ "svc_Scope (sd_Service sd)"], rule exI[of _ "sd_TransformHelpers sd"]) simp

lemma conv_frame_trans: "conv_frame a b \<Longrightarrow> conv_frame b c \<Longrightarrow> conv_frame a c"
proof -
  assume "conv_frame a b" "conv_frame b c"
  then obtain sc hs sc' hs' where
    "b = a\<lparr>sd_Service := (sd_Service a)\<lparr>svc_Scope := sc\<rparr>, sd_TransformHelpers := hs\<rparr>"
    "c = b\<lparr>sd_Service := (sd_Service b)\<lparr>svc_Scope := sc'\<rparr>, sd_TransformHelpers := hs'\<rparr>"
    unfolding conv_frame_def by blast
  then have "c = a\<lparr>sd_Service := (sd_Service a)\<lparr>svc_Scope := sc'\<rparr>, sd_TransformHelpers := hs'\<rparr>"
    by simp
  then show ?thesis unfolding conv_frame_def by blast
qed

lemma conv_frame_scope: "conv_frame sd (setServiceScope sd sc)"
  unfolding conv_frame_def setServiceScope_def
  by (rule exI[of _ sc], rule exI[of _ "sd_TransformHelpers sd"]) simp

lemma conv_frame_helpers: "conv_frame sd (sd\<lparr>sd_TransformHelpers := hs\<rparr>)"
  unfolding conv_frame_def
  by (rule exI[of _ "svc_Scope (sd_Service sd)"], rule exI[of _ hs]) simp

lemma buildConvertData_frame:
  assumes "buildConvertData x st src tgt sv tv proto sd out fn = Inr (cv, sd', out')"
  shows "conv_frame sd sd'"
proof -
  from assms obtain srcAtt tgtAtt where a: "an_Attribute src = Some srcAtt" "an_Attribute tgt = Some tgtAtt"
    by (auto simp: buildConvertData_def split: option.splits)
  define sd1 where "sd1 = (if \<not> proto
      then setServiceScope sd (snd (x_protoBufMessageName x st srcAtt (svc_Scope (sd_Service sd))))
      else sd)"
  have f1: "conv_frame sd sd1" by (simp add: sd1_def conv_frame_refl conv_frame_scope)
  from assms a have "sd' = sd1 \<or> (\<exists>hs. sd' = sd1\<lparr>sd_TransformHelpers := hs\<rparr>)"
    by (auto simp: buildConvertData_def Let_def sd1_def split: sum.splits prod.splits if_splits)
  then show ?thesis using f1 conv_frame_helpers[of sd1] conv_frame_trans by blast
qed

lemma buildRequestConvertData_frame:
  "buildRequestConvertData x st ra pa md e sd out svr = Inr (cv, sd', out') \<Longrightarrow> conv_frame sd sd'"
  unfolding buildRequestConvertData_def
  by (auto simp: conv_frame_refl dest: buildConvertData_frame split: if_splits)

lemma buildResponseConvertData_frame:
  "buildResponseConvertData x st ra pa hs ts e sd out svr = Inr (cv, sd', out') \<Longrightarrow>
     conv_frame sd sd'"
  unfolding buildResponseConvertData_def
  by (auto simp: conv_frame_refl dest: buildConvertData_frame split: if_splits)

lemma buildStreamData_frame:
  assumes "buildStreamData x st e sd out svr = Inr (s, sd', out')"
  shows "conv_frame sd sd'"
  using assms unfolding buildStreamData_def Let_def
  by (auto simp: conv_frame_refl split: option.splits sum.splits if_splits
      dest!: buildConvertData_frame intro: conv_frame_trans)

lemma conv_frame_fields:
  assumes "conv_frame sd sd'"
  shows "sd_Messages sd' = sd_Messages sd" "sd_Endpoints sd' = sd_Endpoints sd"
    "sd_PkgName sd' = sd_PkgName sd" "sd_Validations sd' = sd_Validations sd"
    "sd_Scope sd' = sd_Scope sd"
  using assms unfolding conv_frame_def by auto

lemma requestData_InrE:
  assumes "requestData x st e payloadAn sd seen out = Inr (rq, sd', seen', out')"
  obtains reqMD sc sconv sd1 out1 cconv sd2 obj m where
    "extractMetadata x st (ep_Metadata e) payloadAn (svc_Scope (sd_Service sd)) = Inr (reqMD, sc)"
    "buildRequestConvertData x st (newProtoBufAnalyzer (ep_Request e) (sd_PkgName sd)) payloadAn
       reqMD e (setServiceScope sd sc) out True = Inr (sconv, sd1, out1)"
    "buildRequestConvertData x st (newProtoBufAnalyzer (ep_Request e) (sd_PkgName sd)) payloadAn
       reqMD e sd1 out1 False = Inr (cconv, sd2, out')"
    "x_AsObject x st (att_Type (ep_Request e)) = Some obj"
    "collect x st sd2 seen
       (if att_Type (ep_StreamingRequest e) \<noteq> Empty then ep_StreamingRequest e else ep_Request e)
     = Inr (m, sd', seen')"
    "rq_Message rq = Some m" "rq_Metadata rq = reqMD" "rq_ServerConvert rq = sconv"
    "rq_ClientConvert rq = cconv"
    "rq_CLIArgs rq =
       (if length obj > 0
        then [\<lparr>ia_Name = ''message'', ia_Ref = ''message'', ia_FieldName = [],
                ia_TypeName = x_Name x st (newProtoBufAnalyzer (ep_Request e) (sd_PkgName sd)) True,
                ia_TypeRef = x_Ref x st (newProtoBufAnalyzer (ep_Request e) (sd_PkgName sd)) True,
                ia_Pointer = False, ia_Required = False, ia_DefaultValue = None,
                ia_Validate = []\<rparr>]
        else []) @ map metadataArg reqMD"
  using assms unfolding requestData_def Let_def
  by (auto split: sum.splits option.splits)

lemma responseData_InrE:
  assumes "responseData x st e sd seen out = Inr (rp, sd', seen', out')"
  obtains resultAn hdrs sc1 trlrs sc2 sconv sd1 out1 cconv sd2 where
    "resultAnalyzer x st e sd = Inr resultAn"
    "extractMetadata x st (rs_Headers (ep_Response e)) resultAn (svc_Scope (sd_Service sd)) = Inr (hdrs, sc1)"
    "extractMetadata x st (rs_Trailers (ep_Response e)) resultAn sc1 = Inr (trlrs, sc2)"
    "buildResponseConvertData x st (newProtoBufAnalyzer (rs_Message (ep_Response e)) (sd_PkgName sd))
       resultAn hdrs trlrs e (setServiceScope sd sc2) out True = Inr (sconv, sd1, out1)"
    "buildResponseConvertData x st (newProtoBufAnalyzer (rs_Message (ep_Response e)) (sd_PkgName sd))
       resultAn hdrs trlrs e sd1 out1 False = Inr (cconv, sd2, out')"
    "rp_ServerConvert rp = sconv" "rp_ClientConvert rp = cconv"
    "rp_Headers rp = hdrs" "rp_Trailers rp = trlrs"
    "if att_Type (rs_Message (ep_Response e)) \<noteq> Empty \<or> \<not> x_IsStreaming x (ep_MethodExpr e)
     then \<exists>m. collect x st sd2 seen (rs_Message (ep_Response e)) = Inr (m, sd', seen') \<and>
              rp_Message rp = Some m
     else rp_Message rp = None \<and> sd' = sd2 \<and> seen' = seen"
  using assms unfolding responseData_def Let_def
  by (auto split: sum.splits option.splits if_splits)

lemma analyzeEndpoint_InrE:
  assumes "analyzeEndpoint x (st0, sd0, seen, out) e0 = Inr (st', sd', seen', out')"
  obtains e sd md rq sd1 seen1 out1 rp sd2 out2 msgSch metSch where
    "makeProtoBufMessages x st0 sd0 e0 = (st', e, sd)"
    "x_Method x (sd_Service sd) (ep_Name e) = Some md"
    "requestData x st' e (PayloadAnalyzer (me_Payload (ep_MethodExpr e)) (svc_PkgName (sd_Service sd)))
       sd seen out = Inr (rq, sd1, seen1, out1)"
    "responseData x st' e sd1 seen1 out1 = Inr (rp, sd2, seen', out2)"
    "gatherSchemes x md (concat (ep_Requirements e)) [] [] = Inr (msgSch, metSch)"
    "if x_IsStreaming x (ep_MethodExpr e)
     then \<exists>ss sd4 out3 cs sd5.
        buildStreamData x st' e
          (sd2\<lparr>sd_Endpoints := sd_Endpoints sd2 @
             [newEndpointData x st' e sd2 md (buildErrorsData x st' e sd) rq rp msgSch metSch]\<rparr>)
          out2 True = Inr (ss, sd4, out3) \<and>
        buildStreamData x st' e
          (updateLastEndpoint (\<lambda>ed. ed\<lparr>ed_ServerStream := Some ss\<rparr>) sd4) out3 False
          = Inr (cs, sd5, out') \<and>
        sd' = updateLastEndpoint (\<lambda>ed. ed\<lparr>ed_ClientStream := Some cs\<rparr>) sd5
     else sd' = sd2\<lparr>sd_Endpoints := sd_Endpoints sd2 @
             [newEndpointData x st' e sd2 md (buildErrorsData x st' e sd) rq rp msgSch metSch]\<rparr>
          \<and> out' = out2"
  using assms unfolding analyzeEndpoint_def Let_def
  by (auto split: sum.splits option.splits if_splits prod.splits)

lemma setServiceScope_messages [simp]: "sd_Messages (setServiceScope sd sc) = sd_Messages sd"
  by (simp add: setServiceScope_def)

lemma updateLastEndpoint_messages [simp]: "sd_Messages (updateLastEndpoint f sd) = sd_Messages sd"
  by (simp add: updateLastEndpoint_def split: list.splits)






lemma messages_inv_endpoints [simp]:
  "messages_inv (sd\<lparr>sd_Endpoints := es\<rparr>) seen = messages_inv sd seen"
  by (simp add: messages_inv_def)

lemma messages_inv_updateLast [simp]:
  "messages_inv (updateLastEndpoint f sd) seen = messages_inv sd seen"
  by (simp add: messages_inv_def)




lemma collectFields_append:
  "collectFields x st an (fs1 @ fs2) sd seen =
     (case collectFields x st an fs1 sd seen of
        (d1, sd1, seen1) \<Rightarrow>
          (case collectFields x st an fs2 sd1 seen1 of
             (d2, sd2, seen2) \<Rightarrow> (d1 @ d2, sd2, seen2)))"
proof (induction fs1 arbitrary: sd seen)
  case Nil
  show ?case by (simp split: prod.splits)
next
  case (Cons f fs1)
  show ?case
    by (simp add: Cons.IH Let_def split: prod.splits)
qed

lemma collectFields_single:
  "collectFields x st an [f] sd seen = collectMessages x st (Dup an (snd f) True) sd seen"
  by (simp add: Let_def split: prod.splits)

lemma metadataEntry_pointer:
  assumes "metadataEntry x st serviceAn scope f = Inr (m, scope')" "mt_Pointer m"
  shows "\<not> mt_Required m \<and> x_IsPrimitive x st (mt_Type m)"
proof -
  obtain name elem required c where f: "f = (name, elem, required, c)" by (cases f) auto
  from assms(1) have
    p: "mt_Pointer m = (IsPointer x st (Dup serviceAn c required) \<and> x_IsPrimitive x st (att_Type c))"
    and r: "mt_Required m = required" and t: "mt_Type m = att_Type c"
    unfolding metadataEntry_def f Let_def
    by (auto split: prod.splits option.splits sum.splits if_splits)
  from assms(2) p have "IsPointer x st (Dup serviceAn c required)" "x_IsPrimitive x st (att_Type c)"
    by auto
  then show ?thesis by (simp add: r t IsPointer_def Dup_def)
qed

lemma extractMetadata_pointer:
  "extractMetadata x st a serviceAn scope = Inr (ms, scope') \<Longrightarrow> m \<in> set ms \<Longrightarrow>
     mt_Pointer m \<Longrightarrow> \<not> mt_Required m \<and> x_IsPrimitive x st (mt_Type m)"
proof (induction a arbitrary: scope ms)
  case Nil
  then show ?case by simp
next
  case (Cons f fs)
  from Cons.prems(1) obtain m0 sc1 ms0 where
    e: "metadataEntry x st serviceAn scope f = Inr (m0, sc1)"
    and r: "extractMetadata x st fs serviceAn sc1 = Inr (ms0, scope')"
    and ms: "ms = m0 # ms0"
    by (auto split: sum.splits)
  from Cons.prems(2) ms consider "m = m0" | "m \<in> set ms0" by auto
  then show ?case
  proof cases
    case 1
    with metadataEntry_pointer[OF e] Cons.prems(3) show ?thesis by simp
  next
    case 2
    from Cons.IH[OF r 2 Cons.prems(3)] show ?thesis .
  qed
qed

lemma collect_InrE:
  assumes "collect x st sd seen att = Inr (m, sd', seen')"
  obtains msgs sd1 where
    "collectMessages x st (newProtoBufAnalyzer att (sd_PkgName sd)) sd seen = (m # msgs, sd1, seen')"
    "sd' = sd1\<lparr>sd_Messages := sd_Messages sd1 @ m # msgs\<rparr>"
    "sd_Messages sd' = sd_Messages sd @ m # msgs"
proof -
  obtain ms sd1 seen1 where r:
    "collectMessages x st (newProtoBufAnalyzer att (sd_PkgName sd)) sd seen = (ms, sd1, seen1)"
    by (cases "collectMessages x st (newProtoBufAnalyzer att (sd_PkgName sd)) sd seen") auto
  from collectMessages_frame[OF r] have f: "sd_Messages sd1 = sd_Messages sd" by auto
  from assms r obtain msgs where "ms = m # msgs" "seen1 = seen'"
    "sd' = sd1\<lparr>sd_Messages := sd_Messages sd1 @ m # msgs\<rparr>"
    by (auto simp: collect_def split: list.splits)
  with r f that show ?thesis by simp
qed

lemma last_updateLastEndpoint:
  "sd_Endpoints sd \<noteq> [] \<Longrightarrow>
     sd_Endpoints (updateLastEndpoint f sd) = butlast (sd_Endpoints sd) @ [f (last (sd_Endpoints sd))]"
  unfolding updateLastEndpoint_def
  by (cases "sd_Endpoints sd" rule: rev_cases) auto

lemma collect_endpoints:
  assumes "collect x st sd seen att = Inr (m, sd', seen')"
  shows "sd_Endpoints sd' = sd_Endpoints sd"
proof -
  from assms obtain msgs sd1 where
    r: "collectMessages x st (newProtoBufAnalyzer att (sd_PkgName sd)) sd seen = (m # msgs, sd1, seen')"
    and e: "sd' = sd1\<lparr>sd_Messages := sd_Messages sd1 @ m # msgs\<rparr>"
    by (rule collect_InrE)
  from collectMessages_frame[OF r] e show ?thesis by auto
qed

lemma setServiceScope_endpoints [simp]: "sd_Endpoints (setServiceScope sd sc) = sd_Endpoints sd"
  by (simp add: setServiceScope_def)

lemma requestData_endpoints:
  assumes "requestData x st e pa sd seen out = Inr (rq, sd', seen', out')"
  shows "sd_Endpoints sd' = sd_Endpoints sd"
proof -
  from assms obtain reqMD sc sconv sd1 out1 cconv sd2 m att where
    a: "buildRequestConvertData x st (newProtoBufAnalyzer (ep_Request e) (sd_PkgName sd)) pa
       reqMD e (setServiceScope sd sc) out True = Inr (sconv, sd1, out1)"
    and b: "buildRequestConvertData x st (newProtoBufAnalyzer (ep_Request e) (sd_PkgName sd)) pa
       reqMD e sd1 out1 False = Inr (cconv, sd2, out')"
    and c: "collect x st sd2 seen att = Inr (m, sd', seen')"
    by (elim requestData_InrE) blast
  from conv_frame_fields(2)[OF buildRequestConvertData_frame[OF a]]
    conv_frame_fields(2)[OF buildRequestConvertData_frame[OF b]]
    collect_endpoints[OF c]
  show ?thesis by simp
qed

lemma responseData_endpoints:
  assumes "responseData x st e sd seen out = Inr (rp, sd', seen', out')"
  shows "sd_Endpoints sd' = sd_Endpoints sd"
proof -
  from assms obtain resultAn hdrs trlrs sc2 sconv sd1 out1 cconv sd2 where
    a: "buildResponseConvertData x st (newProtoBufAnalyzer (rs_Message (ep_Response e)) (sd_PkgName sd))
       resultAn hdrs trlrs e (setServiceScope sd sc2) out True = Inr (sconv, sd1, out1)"
    and b: "buildResponseConvertData x st (newProtoBufAnalyzer (rs_Message (ep_Response e)) (sd_PkgName sd))
       resultAn hdrs trlrs e sd1 out1 False = Inr (cconv, sd2, out')"
    and c: "if att_Type (rs_Message (ep_Response e)) \<noteq> Empty \<or> \<not> x_IsStreaming x (ep_MethodExpr e)
     then \<exists>m. collect x st sd2 seen (rs_Message (ep_Response e)) = Inr (m, sd', seen') \<and>
              rp_Message rp = Some m
     else rp_Message rp = None \<and> sd' = sd2 \<and> seen' = seen"
    by (elim responseData_InrE) blast
  have "sd_Endpoints sd2 = sd_Endpoints sd"
    using conv_frame_fields(2)[OF buildResponseConvertData_frame[OF a]]
      conv_frame_fields(2)[OF buildResponseConvertData_frame[OF b]] by simp
  moreover have "sd_Endpoints sd' = sd_Endpoints sd2"
    using c by (auto dest: collect_endpoints split: if_splits)
  ultimately show ?thesis by simp
qed

lemma makeProtoBufMessages_fields:
  assumes "makeProtoBufMessages x st0 sd0 e0 = (st, e, sd)"
  shows "sd_Endpoints sd = sd_Endpoints sd0" "ep_MethodExpr e = ep_MethodExpr e0"
    "ep_Name e = ep_Name e0"
  using assms unfolding makeProtoBufMessages_def Let_def
  by (auto split: prod.splits)

lemma updateLastEndpoint_snoc:
  "sd_Endpoints sd = es @ [ed] \<Longrightarrow> sd_Endpoints (updateLastEndpoint f sd) = es @ [f ed]"
  by (simp add: updateLastEndpoint_def)

lemma analyzeEndpoint_last:
  assumes "analyzeEndpoint x (st0, sd0, seen, out) e0 = Inr (st', sd', seen', out')"
  obtains e sd md rq sd1 seen1 out1 rp sd2 out2 msgSch metSch sst cst where
    "makeProtoBufMessages x st0 sd0 e0 = (st', e, sd)"
    "x_Method x (sd_Service sd) (ep_Name e) = Some md"
    "requestData x st' e (PayloadAnalyzer (me_Payload (ep_MethodExpr e)) (svc_PkgName (sd_Service sd)))
       sd seen out = Inr (rq, sd1, seen1, out1)"
    "responseData x st' e sd1 seen1 out1 = Inr (rp, sd2, seen', out2)"
    "sd_Endpoints sd' = sd_Endpoints sd0 @
       [(newEndpointData x st' e sd2 md (buildErrorsData x st' e sd) rq rp msgSch metSch)
          \<lparr>ed_ServerStream := sst, ed_ClientStream := cst\<rparr>]"
    "if x_IsStreaming x (ep_MethodExpr e)
     then \<exists>ss sd4 out3 cs sd5.
        buildStreamData x st' e
          (sd2\<lparr>sd_Endpoints := sd_Endpoints sd2 @
             [newEndpointData x st' e sd2 md (buildErrorsData x st' e sd) rq rp msgSch metSch]\<rparr>)
          out2 True = Inr (ss, sd4, out3) \<and>
        buildStreamData x st' e
          (updateLastEndpoint (\<lambda>ed. ed\<lparr>ed_ServerStream := Some ss\<rparr>) sd4) out3 False
          = Inr (cs, sd5, out') \<and>
        sst = Some ss \<and> cst = Some cs
     else sst = None \<and> cst = None"
proof -
  from assms obtain e sd md rq sd1 seen1 out1 rp sd2 out2 msgSch metSch where
    m: "makeProtoBufMessages x st0 sd0 e0 = (st', e, sd)"
    and md: "x_Method x (sd_Service sd) (ep_Name e) = Some md"
    and rq: "requestData x st' e (PayloadAnalyzer (me_Payload (ep_MethodExpr e)) (svc_PkgName (sd_Service sd)))
       sd seen out = Inr (rq, sd1, seen1, out1)"
    and rp: "responseData x st' e sd1 seen1 out1 = Inr (rp, sd2, seen', out2)"
    and fin: "if x_IsStreaming x (ep_MethodExpr e)
     then \<exists>ss sd4 out3 cs sd5.
        buildStreamData x st' e
          (sd2\<lparr>sd_Endpoints := sd_Endpoints sd2 @
             [newEndpointData x st' e sd2 md (buildErrorsData x st' e sd) rq rp msgSch metSch]\<rparr>)
          out2 True = Inr (ss, sd4, out3) \<and>
        buildStreamData x st' e
          (updateLastEndpoint (\<lambda>ed. ed\<lparr>ed_ServerStream := Some ss\<rparr>) sd4) out3 False
          = Inr (cs, sd5, out') \<and>
        sd' = updateLastEndpoint (\<lambda>ed. ed\<lparr>ed_ClientStream := Some cs\<rparr>) sd5
     else sd' = sd2\<lparr>sd_Endpoints := sd_Endpoints sd2 @
             [newEndpointData x st' e sd2 md (buildErrorsData x st' e sd) rq rp msgSch metSch]\<rparr>
          \<and> out' = out2"
    by (elim analyzeEndpoint_InrE) blast
  let ?ed = "newEndpointData x st' e sd2 md (buildErrorsData x st' e sd) rq rp msgSch metSch"
  have E: "sd_Endpoints sd2 = sd_Endpoints sd0"
    using makeProtoBufMessages_fields(1)[OF m] requestData_endpoints[OF rq]
      responseData_endpoints[OF rp] by simp
  have none: "ed_ServerStream ?ed = None" "ed_ClientStream ?ed = None"
    by (simp_all add: newEndpointData_def Let_def)
  show ?thesis
  proof (cases "x_IsStreaming x (ep_MethodExpr e)")
    case False
    with fin have s: "sd_Endpoints sd' = sd_Endpoints sd0 @ [?ed]" by (simp add: E)
    have "?ed\<lparr>ed_ServerStream := None, ed_ClientStream := None\<rparr> = ?ed"
      by (simp add: newEndpointData_def Let_def)
    with s have s': "sd_Endpoints sd' = sd_Endpoints sd0 @
        [?ed\<lparr>ed_ServerStream := None, ed_ClientStream := None\<rparr>]" by simp
    show ?thesis
      by (rule that[OF m md rq rp s']) (use False in simp)
  next
    case True
    with fin obtain ss sd4 out3 cs sd5 where
      a: "buildStreamData x st' e (sd2\<lparr>sd_Endpoints := sd_Endpoints sd2 @ [?ed]\<rparr>) out2 True
          = Inr (ss, sd4, out3)"
      and b: "buildStreamData x st' e
          (updateLastEndpoint (\<lambda>ed. ed\<lparr>ed_ServerStream := Some ss\<rparr>) sd4) out3 False
          = Inr (cs, sd5, out')"
      and c: "sd' = updateLastEndpoint (\<lambda>ed. ed\<lparr>ed_ClientStream := Some cs\<rparr>) sd5"
      by auto
    have e4: "sd_Endpoints sd4 = sd_Endpoints sd0 @ [?ed]"
      using conv_frame_fields(2)[OF buildStreamData_frame[OF a]] by (simp add: E)
    have e5: "sd_Endpoints sd5 = sd_Endpoints sd0 @ [?ed\<lparr>ed_ServerStream := Some ss\<rparr>]"
      using conv_frame_fields(2)[OF buildStreamData_frame[OF b]]
        updateLastEndpoint_snoc[OF e4] by simp
    have e': "sd_Endpoints sd' = sd_Endpoints sd0 @
        [?ed\<lparr>ed_ServerStream := Some ss, ed_ClientStream := Some cs\<rparr>]"
      unfolding c using updateLastEndpoint_snoc[OF e5] by simp
    show ?thesis
      by (rule that[OF m md rq rp e']) (use True a b in auto)
  qed
qed



lemma buildConvertData_Some:
  assumes "buildConvertData x st source target sv tv proto sd out fn = Inr (Some cv, sd', out')"
  shows "\<exists>data. cv_Init cv = Some (case fn of None \<Rightarrow> data | Some f \<Rightarrow> f data) \<and>
           in_Args data = [bodyArg x st source sv] \<and>
           \<not> isl (x_protoBufTransform x st source target sv tv proto) \<and> out' = out"
  using assms
  by (auto simp: buildConvertData_def Let_def bodyArg_def
      split: option.splits sum.splits prod.splits if_splits)

lemma buildConvertData_None:
  assumes "buildConvertData x st source target sv tv proto sd out fn = Inr (None, sd', out')"
  shows "\<exists>err. x_protoBufTransform x st source target sv tv proto = Inl err \<and> out' = out @ [err]"
  using assms
  by (auto simp: buildConvertData_def Let_def
      split: option.splits sum.splits prod.splits if_splits)

lemma buildConvertData_nil_iff:
  assumes "buildConvertData x st source target sv tv proto sd out fn = Inr (cv, sd', out')"
  shows "cv = None \<longleftrightarrow> isl (x_protoBufTransform x st source target sv tv proto)"
proof (cases cv)
  case None
  with buildConvertData_None[of x st source target sv tv proto sd out fn sd' out'] assms
  show ?thesis by auto
next
  case (Some c)
  with buildConvertData_Some[of x st source target sv tv proto sd out fn c sd' out'] assms
  show ?thesis by auto
qed

lemma buildRequestConvertData_server_args:
  assumes "buildRequestConvertData x st requestAn payloadAn md e sd out True = Inr (Some cv, sd', out')"
  shows "\<exists>init. cv_Init cv = Some init \<and>
           in_Args init =
             (if att_Type (me_StreamingPayload (ep_MethodExpr e)) \<noteq> Empty then []
              else [bodyArg x st requestAn ''message'']) @ map metadataArg md"
proof -
  from assms have b: "buildConvertData x st requestAn payloadAn ''message'' ''payload'' False sd out
      (Some (\<lambda>data.
         let data1 = (if att_Type (me_StreamingPayload (ep_MethodExpr e)) \<noteq> Empty
                      then data\<lparr>in_Args := []\<rparr> else data)
         in data1\<lparr>in_Args := in_Args data1 @ map metadataArg md\<rparr>)) = Inr (Some cv, sd', out')"
    by (simp add: buildRequestConvertData_def split: if_splits)
  from buildConvertData_Some[OF b] show ?thesis
    by (auto simp: Let_def)
qed

lemma adapter_step:
  assumes "(case row of
              None \<Rightarrow> Inr (None, sd, out)
            | Some (source, target, sv, tv) \<Rightarrow>
                buildConvertData x st source target sv tv proto sd out None) = Inr (cv, sd', out')"
  shows "(cv \<noteq> None) = adapterBuilt x st row proto"
proof (cases row)
  case None
  with assms show ?thesis by (simp add: adapterBuilt_def)
next
  case (Some r)
  obtain source target sv tv where r: "r = (source, target, sv, tv)" by (cases r) auto
  from assms Some r
  have "buildConvertData x st source target sv tv proto sd out None = Inr (cv, sd', out')" by simp
  from buildConvertData_nil_iff[OF this] Some r show ?thesis by (simp add: adapterBuilt_def)
qed

lemma buildStreamData_unfold:
  "buildStreamData x st e sd out svr =
     (case Endpoint sd (ep_Name e) of
        None \<Rightarrow> Inl NilDereference
      | Some ed \<Rightarrow>
     (case resultAnalyzer x st e sd of
        Inl p \<Rightarrow> Inl p
      | Inr resultAn \<Rightarrow>
     (case (if svr then md_ServerStream (ed_Method ed) else md_ClientStream (ed_Method ed)) of
        None \<Rightarrow> Inl NilDereference
      | Some ss \<Rightarrow>
     (case (case sendAdapter e sd (ed_Method ed) resultAn svr of
              None \<Rightarrow> Inr (None, sd, out)
            | Some (source, target, sv, tv) \<Rightarrow>
                buildConvertData x st source target sv tv True sd out None) of
        Inl p \<Rightarrow> Inl p
      | Inr (sendType, sd1, out1) \<Rightarrow>
     (case (case recvAdapter e sd (ed_Method ed) resultAn svr of
              None \<Rightarrow> Inr (None, sd1, out1)
            | Some (source, target, sv, tv) \<Rightarrow>
                buildConvertData x st source target sv tv False sd1 out1 None) of
        Inl p \<Rightarrow> Inl p
      | Inr (recvType, sd2, out2) \<Rightarrow>
          Inr (\<lparr>sm_VarName = ss_VarName ss,
                sm_Type = (if svr then ''server'' else ''client''),
                sm_ServiceInterface = svc_PkgName (sd_Service sd) @ ''.'' @ ss_Interface ss,
                sm_Interface = sd_PkgName sd @ ''.'' @ svc_StructName (sd_Service sd) @ ''_'' @
                               md_VarName (ed_Method ed) @ (if svr then ''Server'' else ''Client''),
                sm_Endpoint = ed_Method ed,
                sm_SendName = (if sendAdapter e sd (ed_Method ed) resultAn svr \<noteq> None
                               then ss_SendName ss else []),
                sm_SendRef = (if sendAdapter e sd (ed_Method ed) resultAn svr = None then []
                              else if svr then ed_ResultRef ed
                              else x_Ref x st (PayloadAnalyzer (me_StreamingPayload (ep_MethodExpr e))
                                     (svc_PkgName (sd_Service sd))) True),
                sm_SendConvert = sendType,
                sm_RecvConvert = recvType,
                sm_RecvName = (if recvAdapter e sd (ed_Method ed) resultAn svr \<noteq> None
                               then ss_RecvName ss else []),
                sm_RecvRef = (if recvAdapter e sd (ed_Method ed) resultAn svr = None then []
                              else if svr
                              then x_Ref x st (PayloadAnalyzer (me_StreamingPayload (ep_MethodExpr e))
                                     (svc_PkgName (sd_Service sd))) True
                              else ed_ResultRef ed),
                sm_MustClose = ss_MustClose ss\<rparr>, sd2, out2))))))"
  unfolding buildStreamData_def Let_def sendAdapter_def recvAdapter_def
  by (cases svr) (simp_all split: option.splits sum.splits)

lemma buildStreamData_table:
  assumes "buildStreamData x st e sd out svr = Inr (s, sd', out')"
  shows "\<exists>ed resultAn ss.
           Endpoint sd (ep_Name e) = Some ed \<and> resultAnalyzer x st e sd = Inr resultAn \<and>
           (if svr then md_ServerStream (ed_Method ed) else md_ClientStream (ed_Method ed)) = Some ss \<and>
           sm_Type s = (if svr then ''server'' else ''client'') \<and>
           sm_MustClose s = ss_MustClose ss \<and>
           (sm_SendConvert s \<noteq> None)
             = adapterBuilt x st (sendAdapter e sd (ed_Method ed) resultAn svr) True \<and>
           (sm_RecvConvert s \<noteq> None)
             = adapterBuilt x st (recvAdapter e sd (ed_Method ed) resultAn svr) False"
proof -
  from assms obtain ed where ed: "Endpoint sd (ep_Name e) = Some ed"
    by (auto simp: buildStreamData_unfold split: option.splits)
  from assms ed obtain resultAn where ra: "resultAnalyzer x st e sd = Inr resultAn"
    by (auto simp: buildStreamData_unfold split: sum.splits)
  from assms ed ra obtain ss where
    ss: "(if svr then md_ServerStream (ed_Method ed) else md_ClientStream (ed_Method ed)) = Some ss"
    by (auto simp: buildStreamData_unfold split: option.splits)
  from assms ed ra ss obtain sendType sd1 out1 where
    snd: "(case sendAdapter e sd (ed_Method ed) resultAn svr of
              None \<Rightarrow> Inr (None, sd, out)
            | Some (source, target, sv, tv) \<Rightarrow>
                buildConvertData x st source target sv tv True sd out None)
          = Inr (sendType, sd1, out1)"
    by (simp add: buildStreamData_unfold split: sum.splits) auto
  from assms ed ra ss snd obtain recvType where
    rcv: "(case recvAdapter e sd (ed_Method ed) resultAn svr of
              None \<Rightarrow> Inr (None, sd1, out1)
            | Some (source, target, sv, tv) \<Rightarrow>
                buildConvertData x st source target sv tv False sd1 out1 None)
          = Inr (recvType, sd', out')"
    by (simp add: buildStreamData_unfold split: sum.splits) auto
  from assms ed ra ss snd rcv have
    f: "sm_Type s = (if svr then ''server'' else ''client'')" "sm_MustClose s = ss_MustClose ss"
       "sm_SendConvert s = sendType" "sm_RecvConvert s = recvType"
    by (auto simp: buildStreamData_unfold)
  from adapter_step[OF snd] adapter_step[OF rcv] ed ra ss f show ?thesis by auto
qed

lemma namesOf_mono: "R \<subseteq> R' \<Longrightarrow> namesOf st R \<subseteq> namesOf st R'"
  by (auto simp: namesOf_def)


lemma namesOf_empty [simp]: "namesOf st {} = {}"
  by (simp add: namesOf_def)








lemma first_name_wins:
  "map utd_Type (fst (collectMessages (demo_ext True) demo_homonyms (demo_an (UserType 0)) demo_sd {}))
     = [0]"
  by code_simp

section \<open>The claims\<close>

text \<open>
  Claim C9. When the attribute handed to the closure \<^verbatim>\<open>collect\<close> of \<^verbatim>\<open>analyze\<close> has a
  user type whose name is not yet in the seen set, \<^verbatim>\<open>collectMessages\<close> returns a list
  that is not empty and whose first element describes that very type, so \<^verbatim>\<open>msgs[0]\<close>
  reads inside the list and the closure returns that element.
\<close>

theorem collect_first_message:
  assumes "att_Type att = UserType r" "userType st r = Some dt" "ut_TypeName dt \<notin> seen"
  shows "\<exists>m msgs sd' seen'.
           collectMessages x st (newProtoBufAnalyzer att (sd_PkgName sd)) sd seen
             = (m # msgs, sd', seen') \<and>
           utd_Name m = ut_TypeName dt \<and> utd_Type m = r \<and>
           collect x st sd seen att
             = Inr (m, sd'\<lparr>sd_Messages := sd_Messages sd' @ m # msgs\<rparr>, seen')"
proof -
  let ?an = "newProtoBufAnalyzer att (sd_PkgName sd)"
  have a: "an_Attribute ?an = Some att" by (simp add: newProtoBufAnalyzer_def)
  obtain data sd3 seen3 where r: "collectMessages x st (Dup ?an (ut_Attribute dt) True)
      (afterTopMessage x st ?an att sd) (insert (ut_TypeName dt) seen) = (data, sd3, seen3)"
    by (cases "collectMessages x st (Dup ?an (ut_Attribute dt) True)
      (afterTopMessage x st ?an att sd) (insert (ut_TypeName dt) seen)") auto
  have c: "collectMessages x st ?an sd seen = (topMessage x st ?an att r dt sd # data, sd3, seen3)"
    by (simp add: collectMessages_unseen[OF a assms] r)
  have "collect x st sd seen att = Inr (topMessage x st ?an att r dt sd,
      sd3\<lparr>sd_Messages := sd_Messages sd3 @ topMessage x st ?an att r dt sd # data\<rparr>, seen3)"
    by (simp add: collect_def c)
  with c show ?thesis by (auto simp: topMessage_def)
qed

theorem collect_first_message_witness:
  "att_Type (AttributeExpr (UserType 0) []) = UserType 0 \<and>
   userType demo_store 0 = Some (demo_store ! 0) \<and>
   ut_TypeName (demo_store ! 0) \<notin> {} \<and>
   (\<exists>m msgs sd' seen'.
      collectMessages (demo_ext True) demo_store
        (newProtoBufAnalyzer (AttributeExpr (UserType 0) []) (sd_PkgName demo_sd)) demo_sd {}
        = (m # msgs, sd', seen') \<and>
      utd_Name m = ut_TypeName (demo_store ! 0) \<and> utd_Type m = 0 \<and>
      collect (demo_ext True) demo_store demo_sd {} (AttributeExpr (UserType 0) [])
        = Inr (m, sd'\<lparr>sd_Messages := sd_Messages sd' @ m # msgs\<rparr>, seen'))"
proof -
  have h1: "att_Type (AttributeExpr (UserType 0) []) = UserType 0" by simp
  have h2: "userType demo_store 0 = Some (demo_store ! 0)"
    by (simp add: userType_def demo_store_def)
  have h3: "ut_TypeName (demo_store ! 0) \<notin> {}" by simp
  from collect_first_message[OF h1 h2 h3, of "demo_ext True" demo_sd] h1 h2 h3
  show ?thesis by blast
qed



text \<open>
  Claim C8. The order of the returned list. For a user type not yet seen, its own
  message comes first and the messages of its definition follow, collected with the name
  marked as seen. The fields of an object are walked in the order of the slice: the result
  for a list of fields followed by another is the result for the first followed by the
  result for the second, started from what the first left. An array gives the messages of
  its element type, a map those of its key type followed by those of its element type.
  The model is a function of its arguments, the seen set included: the code reads the map
  \<^verbatim>\<open>seen\<close> by key only and ranges over slices, so a second run on the same input
  returns the same list.
\<close>

theorem collect_order:
  "(\<forall>at r dt. an_Attribute an = Some at \<longrightarrow> att_Type at = UserType r \<longrightarrow>
       userType st r = Some dt \<longrightarrow> ut_TypeName dt \<notin> seen \<longrightarrow>
       collectMessages x st an sd seen =
         (case collectMessages x st (Dup an (ut_Attribute dt) True)
                 (afterTopMessage x st an at sd) (insert (ut_TypeName dt) seen) of
            (data, sd', seen') \<Rightarrow> (topMessage x st an at r dt sd # data, sd', seen'))) \<and>
   (\<forall>at fs. an_Attribute an = Some at \<longrightarrow> att_Type at = Object fs \<longrightarrow>
       collectMessages x st an sd seen = collectFields x st an fs sd seen) \<and>
   (\<forall>f. collectFields x st an [f] sd seen
           = collectMessages x st (Dup an (snd f) True) sd seen) \<and>
   (\<forall>fs1 fs2. collectFields x st an (fs1 @ fs2) sd seen =
       (case collectFields x st an fs1 sd seen of
          (d1, sd1, seen1) \<Rightarrow>
            (case collectFields x st an fs2 sd1 seen1 of
               (d2, sd2, seen2) \<Rightarrow> (d1 @ d2, sd2, seen2)))) \<and>
   (\<forall>at e. an_Attribute an = Some at \<longrightarrow> att_Type at = Array e \<longrightarrow>
       collectMessages x st an sd seen = collectMessages x st (Dup an e True) sd seen) \<and>
   (\<forall>at k e. an_Attribute an = Some at \<longrightarrow> att_Type at = Map k e \<longrightarrow>
       collectMessages x st an sd seen =
         (case collectMessages x st (Dup an k True) sd seen of
            (d1, sd1, seen1) \<Rightarrow>
              (case collectMessages x st (Dup an e True) sd1 seen1 of
                 (d2, sd2, seen2) \<Rightarrow> (d1 @ d2, sd2, seen2))))"
proof (intro conjI allI impI)
  fix at r dt
  assume "an_Attribute an = Some at" "att_Type at = UserType r" "userType st r = Some dt"
    "ut_TypeName dt \<notin> seen"
  then show "collectMessages x st an sd seen =
         (case collectMessages x st (Dup an (ut_Attribute dt) True)
                 (afterTopMessage x st an at sd) (insert (ut_TypeName dt) seen) of
            (data, sd', seen') \<Rightarrow> (topMessage x st an at r dt sd # data, sd', seen'))"
    by (rule collectMessages_unseen)
next
  fix at fs
  assume "an_Attribute an = Some at" "att_Type at = Object fs"
  then show "collectMessages x st an sd seen = collectFields x st an fs sd seen"
    by (simp add: collectMessages.simps[of x st an sd seen])
next
  fix f
  show "collectFields x st an [f] sd seen = collectMessages x st (Dup an (snd f) True) sd seen"
    by (rule collectFields_single)
next
  fix fs1 fs2
  show "collectFields x st an (fs1 @ fs2) sd seen =
       (case collectFields x st an fs1 sd seen of
          (d1, sd1, seen1) \<Rightarrow>
            (case collectFields x st an fs2 sd1 seen1 of
               (d2, sd2, seen2) \<Rightarrow> (d1 @ d2, sd2, seen2)))"
    by (rule collectFields_append)
next
  fix at e
  assume "an_Attribute an = Some at" "att_Type at = Array e"
  then show "collectMessages x st an sd seen = collectMessages x st (Dup an e True) sd seen"
    by (simp add: collectMessages.simps[of x st an sd seen])
next
  fix at k e
  assume "an_Attribute an = Some at" "att_Type at = Map k e"
  then show "collectMessages x st an sd seen =
         (case collectMessages x st (Dup an k True) sd seen of
            (d1, sd1, seen1) \<Rightarrow>
              (case collectMessages x st (Dup an e True) sd1 seen1 of
                 (d2, sd2, seen2) \<Rightarrow> (d1 @ d2, sd2, seen2)))"
    by (simp add: collectMessages.simps[of x st an sd seen] Let_def split: prod.splits)
qed

theorem collect_order_witness:
  "an_Attribute (demo_an (UserType 0)) = Some (AttributeExpr (UserType 0) []) \<and>
   att_Type (AttributeExpr (UserType 0) []) = UserType 0 \<and>
   userType demo_store 0 = Some (demo_store ! 0) \<and>
   ut_TypeName (demo_store ! 0) \<notin> {} \<and>
   collectMessages (demo_ext True) demo_store (demo_an (UserType 0)) demo_sd {} =
     (case collectMessages (demo_ext True) demo_store
             (Dup (demo_an (UserType 0)) (ut_Attribute (demo_store ! 0)) True)
             (afterTopMessage (demo_ext True) demo_store (demo_an (UserType 0))
                (AttributeExpr (UserType 0) []) demo_sd)
             (insert (ut_TypeName (demo_store ! 0)) {}) of
        (data, sd', seen') \<Rightarrow>
          (topMessage (demo_ext True) demo_store (demo_an (UserType 0))
             (AttributeExpr (UserType 0) []) 0 (demo_store ! 0) demo_sd # data, sd', seen')) \<and>
   an_Attribute (demo_an (Object [(''t'', AttributeExpr (UserType 1) [])]))
     = Some (AttributeExpr (Object [(''t'', AttributeExpr (UserType 1) [])]) []) \<and>
   collectMessages (demo_ext True) demo_store
       (demo_an (Object [(''t'', AttributeExpr (UserType 1) [])])) demo_sd {}
     = collectFields (demo_ext True) demo_store
         (demo_an (Object [(''t'', AttributeExpr (UserType 1) [])]))
         [(''t'', AttributeExpr (UserType 1) [])] demo_sd {} \<and>
   an_Attribute (demo_an (Array (AttributeExpr (UserType 1) [])))
     = Some (AttributeExpr (Array (AttributeExpr (UserType 1) [])) []) \<and>
   collectMessages (demo_ext True) demo_store
       (demo_an (Array (AttributeExpr (UserType 1) []))) demo_sd {}
     = collectMessages (demo_ext True) demo_store
         (Dup (demo_an (Array (AttributeExpr (UserType 1) []))) (AttributeExpr (UserType 1) []) True)
         demo_sd {} \<and>
   an_Attribute (demo_an (Map (AttributeExpr (UserType 1) []) (AttributeExpr (UserType 0) [])))
     = Some (AttributeExpr (Map (AttributeExpr (UserType 1) []) (AttributeExpr (UserType 0) [])) []) \<and>
   map utd_Name (fst (collectMessages (demo_ext True) demo_store
       (demo_an (Map (AttributeExpr (UserType 1) []) (AttributeExpr (UserType 0) []))) demo_sd {}))
     = [''Tag'', ''Tree'']"
proof -
  let ?x = "demo_ext True"
  have a1: "an_Attribute (demo_an (UserType 0)) = Some (AttributeExpr (UserType 0) [])"
    by (simp add: demo_an_def newProtoBufAnalyzer_def)
  have a2: "att_Type (AttributeExpr (UserType 0) []) = UserType 0" by simp
  have a3: "userType demo_store 0 = Some (demo_store ! 0)"
    by (simp add: userType_def demo_store_def)
  have a4: "ut_TypeName (demo_store ! 0) \<notin> {}" by simp
  note u = collect_order[where an = "demo_an (UserType 0)" and st = demo_store and seen = "{}"
      and x = ?x and sd = demo_sd, THEN conjunct1, rule_format, OF a1 a2 a3 a4]
  let ?o = "Object [(''t'', AttributeExpr (UserType 1) [])]"
  have b1: "an_Attribute (demo_an ?o) = Some (AttributeExpr ?o [])"
    by (simp add: demo_an_def newProtoBufAnalyzer_def)
  have b2: "att_Type (AttributeExpr ?o []) = ?o" by simp
  note o = collect_order[where an = "demo_an ?o" and st = demo_store and seen = "{}"
      and x = ?x and sd = demo_sd, THEN conjunct2, THEN conjunct1, rule_format, OF b1 b2]
  let ?a = "Array (AttributeExpr (UserType 1) [])"
  have c1: "an_Attribute (demo_an ?a) = Some (AttributeExpr ?a [])"
    by (simp add: demo_an_def newProtoBufAnalyzer_def)
  have c2: "att_Type (AttributeExpr ?a []) = ?a" by simp
  note a = collect_order[where an = "demo_an ?a" and st = demo_store and seen = "{}"
      and x = ?x and sd = demo_sd, THEN conjunct2, THEN conjunct2, THEN conjunct2, THEN conjunct2,
      THEN conjunct1, rule_format, OF c1 c2]
  let ?m = "Map (AttributeExpr (UserType 1) []) (AttributeExpr (UserType 0) [])"
  have d1: "an_Attribute (demo_an ?m) = Some (AttributeExpr ?m [])"
    by (simp add: demo_an_def newProtoBufAnalyzer_def)
  have d2: "att_Type (AttributeExpr ?m []) = ?m" by simp
  note m = collect_order[where an = "demo_an ?m" and st = demo_store and seen = "{}"
      and x = ?x and sd = demo_sd, THEN conjunct2, THEN conjunct2, THEN conjunct2, THEN conjunct2,
      THEN conjunct2, rule_format, OF d1 d2]
  have k: "map utd_Name (fst
      (case collectMessages ?x demo_store
              (Dup (demo_an ?m) (AttributeExpr (UserType 1) []) True) demo_sd {} of
         (d1, sd1, seen1) \<Rightarrow>
           (case collectMessages ?x demo_store
                   (Dup (demo_an ?m) (AttributeExpr (UserType 0) []) True) sd1 seen1 of
              (d2, sd2, seen2) \<Rightarrow> (d1 @ d2, sd2, seen2)))) = [''Tag'', ''Tree'']"
    by code_simp
  show ?thesis
    using a1 a2 a3 a4 u b1 o c1 a d1 k unfolding m[symmetric] by blast
qed

text \<open>
  Claim C6. Every metadata entry that \<^verbatim>\<open>extractMetadata\<close> produces with
  \<^verbatim>\<open>Pointer\<close> set is not required, and its type is primitive
  (\<^verbatim>\<open>expr.IsPrimitive\<close> holds of it), so the flag is never set for an array, a map or a
  structure. That the type is primitive is the second conjunct of the code's own test;
  that the entry is not required rests on \<open>IsPointer\<close> as the spec describes it.
\<close>

theorem metadata_pointer:
  "extractMetadata x st a serviceAn scope = Inr (ms, scope') \<longrightarrow>
     (\<forall>m \<in> set ms. mt_Pointer m \<longrightarrow> \<not> mt_Required m \<and> x_IsPrimitive x st (mt_Type m))"
proof (intro impI ballI)
  fix m
  assume "extractMetadata x st a serviceAn scope = Inr (ms, scope')" "m \<in> set ms" "mt_Pointer m"
  then show "\<not> mt_Required m \<and> x_IsPrimitive x st (mt_Type m)"
    by (rule extractMetadata_pointer)
qed

theorem metadata_pointer_witness:
  "\<not> isl (extractMetadata (demo_ext True) [] demo_metadata
            (PayloadAnalyzer (AttributeExpr (Object []) []) ''calc'') []) \<and>
   map mt_Pointer (fst (projr (extractMetadata (demo_ext True) [] demo_metadata
            (PayloadAnalyzer (AttributeExpr (Object []) []) ''calc'') [])))
     = [True, False, False] \<and>
   list_all (\<lambda>m. \<not> mt_Pointer m \<or> (\<not> mt_Required m \<and> x_IsPrimitive (demo_ext True) [] (mt_Type m)))
     (fst (projr (extractMetadata (demo_ext True) [] demo_metadata
            (PayloadAnalyzer (AttributeExpr (Object []) []) ''calc'') [])))"
proof -
  let ?r = "extractMetadata (demo_ext True) [] demo_metadata
            (PayloadAnalyzer (AttributeExpr (Object []) []) ''calc'') []"
  have ok: "\<not> isl ?r" by code_simp
  have v: "map mt_Pointer (fst (projr ?r)) = [True, False, False]" by code_simp
  from ok obtain ms sc where r: "?r = Inr (ms, sc)" by (cases ?r) auto
  from metadata_pointer[of "demo_ext True" "[]" demo_metadata
      "PayloadAnalyzer (AttributeExpr (Object []) []) ''calc''" "[]" ms sc] r
  have "\<forall>m \<in> set ms. mt_Pointer m \<longrightarrow>
      \<not> mt_Required m \<and> x_IsPrimitive (demo_ext True) [] (mt_Type m)" by blast
  then have "list_all (\<lambda>m. \<not> mt_Pointer m \<or>
      (\<not> mt_Required m \<and> x_IsPrimitive (demo_ext True) [] (mt_Type m))) ms"
    by (auto simp: list_all_iff)
  with ok v r show ?thesis by simp
qed

text \<open>
  Claim C7. \<^verbatim>\<open>Get\<close> is memoized. A name found in the map is answered from the map,
  which stays as it is. After a call that returned service data, the map holds that data
  under the name and every further call returns it unchanged, whatever the design and
  the other packages then are: \<^verbatim>\<open>analyze\<close> does not run again. A name that is neither
  in the map nor a gRPC service of the design gives nil, no panic, and changes nothing;
  a name of the design that is not yet in the map is analyzed and stored. Since a map that
  only \<^verbatim>\<open>Get\<close> has filled holds names of the design only (\<open>cache_sound\<close>, which holds
  of the empty map and which \<^verbatim>\<open>Get\<close> keeps), a name that is no service of the design
  always gives nil there.
\<close>

theorem Get_memoized:
  "(\<forall>data. d name = Some data \<longrightarrow> Get x d st out name = Inr (Some data, d, st, out)) \<and>
   (\<forall>r d' st' out'. Get x d st out name = Inr (Some r, d', st', out') \<longrightarrow>
      d' name = Some r \<and> (\<forall>x'. Get x' d' st' out' name = Inr (Some r, d', st', out'))) \<and>
   (d name = None \<longrightarrow> x_GRPCService x name = None \<longrightarrow>
      Get x d st out name = Inr (None, d, st, out)) \<and>
   (\<forall>service. d name = None \<longrightarrow> x_GRPCService x name = Some service \<longrightarrow>
      Get x d st out name =
        (case analyze x st out service of
           Inl p \<Rightarrow> Inl p
         | Inr (sd, st', out') \<Rightarrow> Inr (Some sd, d(name \<mapsto> sd), st', out'))) \<and>
   (cache_sound x d \<longrightarrow> x_GRPCService x name = None \<longrightarrow>
      Get x d st out name = Inr (None, d, st, out)) \<and>
   (\<forall>r d' st' out'. cache_sound x d \<longrightarrow> Get x d st out name = Inr (r, d', st', out') \<longrightarrow>
      cache_sound x d')"
proof (intro conjI allI impI)
  fix data assume "d name = Some data"
  then show "Get x d st out name = Inr (Some data, d, st, out)" by (simp add: Get_def)
next
  fix r d' st' out'
  assume g: "Get x d st out name = Inr (Some r, d', st', out')"
  then show "d' name = Some r"
    by (auto simp: Get_def split: option.splits sum.splits)
next
  fix r d' st' out' x'
  assume g: "Get x d st out name = Inr (Some r, d', st', out')"
  then have "d' name = Some r"
    by (auto simp: Get_def split: option.splits sum.splits)
  then show "Get x' d' st' out' name = Inr (Some r, d', st', out')" by (simp add: Get_def)
next
  assume "d name = None" "x_GRPCService x name = None"
  then show "Get x d st out name = Inr (None, d, st, out)" by (simp add: Get_def)
next
  fix service
  assume "d name = None" "x_GRPCService x name = Some service"
  then show "Get x d st out name =
        (case analyze x st out service of
           Inl p \<Rightarrow> Inl p
         | Inr (sd, st', out') \<Rightarrow> Inr (Some sd, d(name \<mapsto> sd), st', out'))"
    by (simp add: Get_def)
next
  assume "cache_sound x d" "x_GRPCService x name = None"
  then have "d name = None" unfolding cache_sound_def by (cases "d name") auto
  with \<open>x_GRPCService x name = None\<close> show "Get x d st out name = Inr (None, d, st, out)"
    by (simp add: Get_def)
next
  fix r d' st' out'
  assume c: "cache_sound x d" and g: "Get x d st out name = Inr (r, d', st', out')"
  from g have "d' = d \<or> (\<exists>sd. d' = d(name \<mapsto> sd) \<and> x_GRPCService x name \<noteq> None)"
    by (auto simp: Get_def split: option.splits sum.splits)
  with c show "cache_sound x d'" unfolding cache_sound_def
    by (auto split: if_splits)
qed

theorem Get_memoized_witness:
  "cache_sound ((demo_ext True)\<lparr>x_GRPCService := demo_design\<rparr>) Map.empty \<and>
   x_GRPCService ((demo_ext True)\<lparr>x_GRPCService := demo_design\<rparr>) ''math'' = None \<and>
   Get ((demo_ext True)\<lparr>x_GRPCService := demo_design\<rparr>) Map.empty [] [] ''math''
     = Inr (None, Map.empty, [], []) \<and>
   (\<exists>r d' st' out'.
      Get ((demo_ext True)\<lparr>x_GRPCService := demo_design\<rparr>) Map.empty [] [] ''calc''
        = Inr (Some r, d', st', out') \<and>
      d' ''calc'' = Some r \<and>
      Get ((demo_ext False)\<lparr>x_GRPCService := (\<lambda>n. None)\<rparr>) d' st' out' ''calc''
        = Inr (Some r, d', st', out') \<and>
      cache_sound ((demo_ext True)\<lparr>x_GRPCService := demo_design\<rparr>) d')"
proof -
  let ?x = "(demo_ext True)\<lparr>x_GRPCService := demo_design\<rparr>"
  have s0: "cache_sound ?x Map.empty" by (simp add: cache_sound_def)
  have n: "x_GRPCService ?x ''math'' = None" by (simp add: demo_design_def)
  note T = Get_memoized[of Map.empty "''math''" ?x "[]" "[]"]
  from T s0 n have g0: "Get ?x Map.empty [] [] ''math'' = Inr (None, Map.empty, [], [])"
    by blast
  have "\<not> isl (Get ?x Map.empty [] [] ''calc'')" by code_simp
  moreover have "fst (projr (Get ?x Map.empty [] [] ''calc'')) \<noteq> None" by code_simp
  ultimately obtain r d' st' out' where
    g: "Get ?x Map.empty [] [] ''calc'' = Inr (Some r, d', st', out')"
    by (cases "Get ?x Map.empty [] [] ''calc''") auto
  note U = Get_memoized[of Map.empty "''calc''" ?x "[]" "[]"]
  from U g have a: "d' ''calc'' = Some r"
    and b: "Get ((demo_ext False)\<lparr>x_GRPCService := (\<lambda>n. None)\<rparr>) d' st' out' ''calc''
        = Inr (Some r, d', st', out')"
    by blast+
  from U s0 g have c: "cache_sound ?x d'" by blast
  from s0 n g0 g a b c show ?thesis by blast
qed



text \<open>
  Claim C4. An endpoint with a streaming payload is one whose method streams its payload
  (\<^verbatim>\<open>IsPayloadStreaming\<close>) and whose streaming payload type is not \<^verbatim>\<open>expr.Empty\<close>; the
  code tests the first for the client side and the second for the arguments. When the
  payload is streamed the client-side request conversion is nil and nothing is built or
  printed. When the streaming payload type is not \<^verbatim>\<open>Empty\<close>, a server-side request
  conversion, when there is one, has a constructor whose arguments are exactly the
  arguments made from the request metadata, in order: the unary message argument is not
  among them. (Without a streaming payload type the message argument comes first.) The
  same holds of the request data \<^verbatim>\<open>analyze\<close> builds.
\<close>

theorem streaming_payload_request:
  "(x_IsPayloadStreaming x (ep_MethodExpr e) \<longrightarrow>
      buildRequestConvertData x st requestAn payloadAn md e sd out False = Inr (None, sd, out)) \<and>
   (\<forall>cv sd' out'.
      buildRequestConvertData x st requestAn payloadAn md e sd out True = Inr (Some cv, sd', out') \<longrightarrow>
      (\<exists>init. cv_Init cv = Some init \<and>
         (att_Type (me_StreamingPayload (ep_MethodExpr e)) \<noteq> Empty \<longrightarrow>
            in_Args init = map metadataArg md) \<and>
         (att_Type (me_StreamingPayload (ep_MethodExpr e)) = Empty \<longrightarrow>
            in_Args init = bodyArg x st requestAn ''message'' # map metadataArg md))) \<and>
   (\<forall>rq sd' seen' out'.
      requestData x st e payloadAn sd seen out = Inr (rq, sd', seen', out') \<longrightarrow>
      (x_IsPayloadStreaming x (ep_MethodExpr e) \<longrightarrow> rq_ClientConvert rq = None) \<and>
      (att_Type (me_StreamingPayload (ep_MethodExpr e)) \<noteq> Empty \<longrightarrow>
         (\<forall>cv. rq_ServerConvert rq = Some cv \<longrightarrow>
            (\<exists>init. cv_Init cv = Some init \<and> in_Args init = map metadataArg (rq_Metadata rq)))))"
proof (intro conjI allI impI)
  assume "x_IsPayloadStreaming x (ep_MethodExpr e)"
  then show "buildRequestConvertData x st requestAn payloadAn md e sd out False = Inr (None, sd, out)"
    by (simp add: buildRequestConvertData_def)
next
  fix cv sd' out'
  assume "buildRequestConvertData x st requestAn payloadAn md e sd out True = Inr (Some cv, sd', out')"
  from buildRequestConvertData_server_args[OF this]
  show "\<exists>init. cv_Init cv = Some init \<and>
         (att_Type (me_StreamingPayload (ep_MethodExpr e)) \<noteq> Empty \<longrightarrow>
            in_Args init = map metadataArg md) \<and>
         (att_Type (me_StreamingPayload (ep_MethodExpr e)) = Empty \<longrightarrow>
            in_Args init = bodyArg x st requestAn ''message'' # map metadataArg md)"
    by auto
next
  fix rq sd' seen' out'
  assume r: "requestData x st e payloadAn sd seen out = Inr (rq, sd', seen', out')"
    and s: "x_IsPayloadStreaming x (ep_MethodExpr e)"
  from r obtain reqMD sd1 out1 cconv sd2 where
    "buildRequestConvertData x st (newProtoBufAnalyzer (ep_Request e) (sd_PkgName sd)) payloadAn
       reqMD e sd1 out1 False = Inr (cconv, sd2, out')" "rq_ClientConvert rq = cconv"
    by (elim requestData_InrE) blast
  with s show "rq_ClientConvert rq = None"
    by (simp add: buildRequestConvertData_def)
next
  fix rq sd' seen' out' cv
  assume r: "requestData x st e payloadAn sd seen out = Inr (rq, sd', seen', out')"
    and s: "att_Type (me_StreamingPayload (ep_MethodExpr e)) \<noteq> Empty"
    and c: "rq_ServerConvert rq = Some cv"
  from r obtain reqMD sc sconv sd1 out1 where
    a: "buildRequestConvertData x st (newProtoBufAnalyzer (ep_Request e) (sd_PkgName sd)) payloadAn
       reqMD e (setServiceScope sd sc) out True = Inr (sconv, sd1, out1)"
    and b: "rq_ServerConvert rq = sconv" "rq_Metadata rq = reqMD"
    by (elim requestData_InrE) blast
  from a b c have "buildRequestConvertData x st (newProtoBufAnalyzer (ep_Request e) (sd_PkgName sd))
       payloadAn reqMD e (setServiceScope sd sc) out True = Inr (Some cv, sd1, out1)" by simp
  from buildRequestConvertData_server_args[OF this] s b
  show "\<exists>init. cv_Init cv = Some init \<and> in_Args init = map metadataArg (rq_Metadata rq)"
    by auto
qed

theorem streaming_payload_request_witness:
  "x_IsPayloadStreaming (demo_ext True) (ep_MethodExpr demo_upload) \<and>
   att_Type (me_StreamingPayload (ep_MethodExpr demo_upload)) \<noteq> Empty \<and>
   buildRequestConvertData (demo_ext True) []
       (newProtoBufAnalyzer (ep_Request demo_upload) pbPkgName)
       (PayloadAnalyzer (me_Payload (ep_MethodExpr demo_upload)) ''calc'')
       demo_uploadMD demo_upload demo_sd [] False = Inr (None, demo_sd, []) \<and>
   \<not> isl (buildRequestConvertData (demo_ext True) []
       (newProtoBufAnalyzer (ep_Request demo_upload) pbPkgName)
       (PayloadAnalyzer (me_Payload (ep_MethodExpr demo_upload)) ''calc'')
       demo_uploadMD demo_upload demo_sd [] True) \<and>
   (\<exists>cv init. fst (projr (buildRequestConvertData (demo_ext True) []
       (newProtoBufAnalyzer (ep_Request demo_upload) pbPkgName)
       (PayloadAnalyzer (me_Payload (ep_MethodExpr demo_upload)) ''calc'')
       demo_uploadMD demo_upload demo_sd [] True)) = Some cv \<and>
     cv_Init cv = Some init \<and> in_Args init = map metadataArg demo_uploadMD) \<and>
   map ia_Name (map metadataArg demo_uploadMD) = [''name'']"
proof -
  let ?x = "demo_ext True"
  let ?ra = "newProtoBufAnalyzer (ep_Request demo_upload) pbPkgName"
  let ?pa = "PayloadAnalyzer (me_Payload (ep_MethodExpr demo_upload)) ''calc''"
  let ?s = "buildRequestConvertData ?x [] ?ra ?pa demo_uploadMD demo_upload demo_sd [] True"
  note T = streaming_payload_request[where x = ?x and e = demo_upload and st = "[]"
      and requestAn = ?ra and payloadAn = ?pa and md = demo_uploadMD and sd = demo_sd and out = "[]"]
  have h1: "x_IsPayloadStreaming ?x (ep_MethodExpr demo_upload)" by code_simp
  have h2: "att_Type (me_StreamingPayload (ep_MethodExpr demo_upload)) \<noteq> Empty" by code_simp
  from T h1 have c1: "buildRequestConvertData ?x [] ?ra ?pa demo_uploadMD demo_upload demo_sd [] False
      = Inr (None, demo_sd, [])" by blast
  have ok: "\<not> isl ?s" by code_simp
  have some: "(case fst (projr ?s) of None \<Rightarrow> False | Some cv \<Rightarrow> True)" by code_simp
  from ok some obtain cv sd' out' where r: "?s = Inr (Some cv, sd', out')"
    by (cases ?s) (auto split: option.splits)
  from T[THEN conjunct2, THEN conjunct1, rule_format, OF r] h2
  have c2: "\<exists>init. cv_Init cv = Some init \<and> in_Args init = map metadataArg demo_uploadMD"
    by blast
  have n: "map ia_Name (map metadataArg demo_uploadMD) = [''name'']" by code_simp
  show ?thesis using h1 h2 c1 ok c2 n by (simp add: r)
qed




text \<open>
  Claim C3, as the code has it. For an endpoint whose method payload type is empty
  (\<^verbatim>\<open>needInit\<close> is false: the type is \<^verbatim>\<open>expr.Empty\<close> or an object without fields) the
  server-side request conversion is nil. The client-side request conversion does not
  depend on the payload being empty: it is nil when the payload is streamed, and for any
  other endpoint it is what \<^verbatim>\<open>buildConvertData\<close> returns, nil exactly when the transform
  fails. The CLI arguments of the request are the message argument, present exactly when
  the object of the request message has fields, followed by one argument for each request
  metadata entry; so the list is empty for a request message without fields and without
  metadata. For an endpoint whose method result type is empty both response conversions
  are nil.
\<close>

theorem empty_payload_result:
  "(\<not> needInit x st (att_Type (me_Payload (ep_MethodExpr e))) \<longrightarrow>
      buildRequestConvertData x st requestAn payloadAn md e sd out True = Inr (None, sd, out)) \<and>
   (x_IsPayloadStreaming x (ep_MethodExpr e) \<longrightarrow>
      buildRequestConvertData x st requestAn payloadAn md e sd out False = Inr (None, sd, out)) \<and>
   (\<forall>cv sd' out'. \<not> x_IsPayloadStreaming x (ep_MethodExpr e) \<longrightarrow>
      buildRequestConvertData x st requestAn payloadAn md e sd out False = Inr (cv, sd', out') \<longrightarrow>
      (cv = None \<longleftrightarrow>
         isl (x_protoBufTransform x st payloadAn requestAn ''payload'' ''message'' True))) \<and>
   (\<forall>rq sd' seen' out'.
      requestData x st e payloadAn sd seen out = Inr (rq, sd', seen', out') \<longrightarrow>
      (\<exists>obj. x_AsObject x st (att_Type (ep_Request e)) = Some obj \<and>
         rq_CLIArgs rq =
           (if obj \<noteq> []
            then [bodyArg x st (newProtoBufAnalyzer (ep_Request e) (sd_PkgName sd)) ''message'']
            else []) @ map metadataArg (rq_Metadata rq))) \<and>
   (\<forall>svr. \<not> needInit x st (att_Type (me_Result (ep_MethodExpr e))) \<longrightarrow>
      buildResponseConvertData x st responseAn resultAn hdrs trlrs e sd out svr
        = Inr (None, sd, out))"
proof (intro conjI allI impI)
  assume "\<not> needInit x st (att_Type (me_Payload (ep_MethodExpr e)))"
  then show "buildRequestConvertData x st requestAn payloadAn md e sd out True = Inr (None, sd, out)"
    by (simp add: buildRequestConvertData_def)
next
  assume "x_IsPayloadStreaming x (ep_MethodExpr e)"
  then show "buildRequestConvertData x st requestAn payloadAn md e sd out False = Inr (None, sd, out)"
    by (simp add: buildRequestConvertData_def)
next
  fix cv sd' out'
  assume "\<not> x_IsPayloadStreaming x (ep_MethodExpr e)"
    "buildRequestConvertData x st requestAn payloadAn md e sd out False = Inr (cv, sd', out')"
  then have "buildConvertData x st payloadAn requestAn ''payload'' ''message'' True sd out
      (Some (\<lambda>data. if att_Type (me_StreamingPayload (ep_MethodExpr e)) \<noteq> Empty
                      then data\<lparr>in_Args := []\<rparr> else data)) = Inr (cv, sd', out')"
    by (simp add: buildRequestConvertData_def)
  then show "cv = None \<longleftrightarrow>
      isl (x_protoBufTransform x st payloadAn requestAn ''payload'' ''message'' True)"
    by (rule buildConvertData_nil_iff)
next
  fix rq sd' seen' out'
  assume "requestData x st e payloadAn sd seen out = Inr (rq, sd', seen', out')"
  then show "\<exists>obj. x_AsObject x st (att_Type (ep_Request e)) = Some obj \<and>
         rq_CLIArgs rq =
           (if obj \<noteq> []
            then [bodyArg x st (newProtoBufAnalyzer (ep_Request e) (sd_PkgName sd)) ''message'']
            else []) @ map metadataArg (rq_Metadata rq)"
    by (elim requestData_InrE) (auto simp: bodyArg_def)
next
  fix svr
  assume "\<not> needInit x st (att_Type (me_Result (ep_MethodExpr e)))"
  then show "buildResponseConvertData x st responseAn resultAn hdrs trlrs e sd out svr
        = Inr (None, sd, out)"
    by (simp add: buildResponseConvertData_def)
qed

theorem empty_payload_result_witness:
  "\<not> needInit (demo_ext True) (fst (demo_made demo_ping))
       (att_Type (me_Payload (ep_MethodExpr (fst (snd (demo_made demo_ping)))))) \<and>
   buildRequestConvertData (demo_ext True) (fst (demo_made demo_ping))
       (newProtoBufAnalyzer (ep_Request (fst (snd (demo_made demo_ping)))) pbPkgName)
       (PayloadAnalyzer (me_Payload (ep_MethodExpr demo_ping)) ''calc'')
       [] (fst (snd (demo_made demo_ping))) demo_sd [] True = Inr (None, demo_sd, []) \<and>
   \<not> x_IsPayloadStreaming (demo_ext True) (ep_MethodExpr (fst (snd (demo_made demo_ping)))) \<and>
   \<not> isl (buildRequestConvertData (demo_ext True) (fst (demo_made demo_ping))
       (newProtoBufAnalyzer (ep_Request (fst (snd (demo_made demo_ping)))) pbPkgName)
       (PayloadAnalyzer (me_Payload (ep_MethodExpr demo_ping)) ''calc'')
       [] (fst (snd (demo_made demo_ping))) demo_sd [] False) \<and>
   ((fst (projr (buildRequestConvertData (demo_ext True) (fst (demo_made demo_ping))
       (newProtoBufAnalyzer (ep_Request (fst (snd (demo_made demo_ping)))) pbPkgName)
       (PayloadAnalyzer (me_Payload (ep_MethodExpr demo_ping)) ''calc'')
       [] (fst (snd (demo_made demo_ping))) demo_sd [] False)) = None) =
    isl (x_protoBufTransform (demo_ext True) (fst (demo_made demo_ping))
       (PayloadAnalyzer (me_Payload (ep_MethodExpr demo_ping)) ''calc'')
       (newProtoBufAnalyzer (ep_Request (fst (snd (demo_made demo_ping)))) pbPkgName)
       ''payload'' ''message'' True)) \<and>
   \<not> isl (requestData (demo_ext True) (fst (demo_made demo_ping)) (fst (snd (demo_made demo_ping)))
       (PayloadAnalyzer (me_Payload (ep_MethodExpr demo_ping)) ''calc'')
       (snd (snd (demo_made demo_ping))) {} []) \<and>
   (\<exists>obj. x_AsObject (demo_ext True) (fst (demo_made demo_ping))
            (att_Type (ep_Request (fst (snd (demo_made demo_ping))))) = Some obj \<and>
      rq_CLIArgs (fst (projr (requestData (demo_ext True) (fst (demo_made demo_ping))
          (fst (snd (demo_made demo_ping)))
          (PayloadAnalyzer (me_Payload (ep_MethodExpr demo_ping)) ''calc'')
          (snd (snd (demo_made demo_ping))) {} []))) =
        (if obj \<noteq> []
         then [bodyArg (demo_ext True) (fst (demo_made demo_ping))
                 (newProtoBufAnalyzer (ep_Request (fst (snd (demo_made demo_ping))))
                    (sd_PkgName (snd (snd (demo_made demo_ping))))) ''message'']
         else []) @
        map metadataArg (rq_Metadata (fst (projr (requestData (demo_ext True)
          (fst (demo_made demo_ping)) (fst (snd (demo_made demo_ping)))
          (PayloadAnalyzer (me_Payload (ep_MethodExpr demo_ping)) ''calc'')
          (snd (snd (demo_made demo_ping))) {} []))))) \<and>
   rq_CLIArgs (fst (projr (requestData (demo_ext True) (fst (demo_made demo_ping))
       (fst (snd (demo_made demo_ping)))
       (PayloadAnalyzer (me_Payload (ep_MethodExpr demo_ping)) ''calc'')
       (snd (snd (demo_made demo_ping))) {} []))) = [] \<and>
   \<not> needInit (demo_ext True) [] (att_Type (me_Result (ep_MethodExpr demo_noresult))) \<and>
   buildResponseConvertData (demo_ext True) []
       (newProtoBufAnalyzer (rs_Message (ep_Response demo_noresult)) pbPkgName)
       (ResultAnalyzer (me_Result (ep_MethodExpr demo_noresult)) ''calc'')
       [] [] demo_noresult demo_sd [] True = Inr (None, demo_sd, []) \<and>
   buildResponseConvertData (demo_ext True) []
       (newProtoBufAnalyzer (rs_Message (ep_Response demo_noresult)) pbPkgName)
       (ResultAnalyzer (me_Result (ep_MethodExpr demo_noresult)) ''calc'')
       [] [] demo_noresult demo_sd [] False = Inr (None, demo_sd, [])"
proof -
  let ?x = "demo_ext True"
  let ?st = "fst (demo_made demo_ping)"
  let ?e = "fst (snd (demo_made demo_ping))"
  let ?sd = "snd (snd (demo_made demo_ping))"
  let ?ra = "newProtoBufAnalyzer (ep_Request ?e) pbPkgName"
  let ?pa = "PayloadAnalyzer (me_Payload (ep_MethodExpr demo_ping)) ''calc''"
  let ?c = "buildRequestConvertData ?x ?st ?ra ?pa [] ?e demo_sd [] False"
  let ?r = "requestData ?x ?st ?e ?pa ?sd {} []"
  note T = empty_payload_result[where x = ?x and st = ?st and e = ?e and requestAn = ?ra
      and payloadAn = ?pa and md = "[]" and sd = demo_sd and out = "[]"]
  have h1: "\<not> needInit ?x ?st (att_Type (me_Payload (ep_MethodExpr ?e)))" by code_simp
  from T h1 have c1: "buildRequestConvertData ?x ?st ?ra ?pa [] ?e demo_sd [] True
      = Inr (None, demo_sd, [])" by blast
  have h2: "\<not> x_IsPayloadStreaming ?x (ep_MethodExpr ?e)" by code_simp
  have ok: "\<not> isl ?c" by code_simp
  then obtain cv sd' out' where c: "?c = Inr (cv, sd', out')" by (cases ?c) auto
  from T[THEN conjunct2, THEN conjunct2, THEN conjunct1, rule_format, OF h2 c]
  have c2: "(cv = None) = isl (x_protoBufTransform ?x ?st ?pa ?ra ''payload'' ''message'' True)" .
  have okr: "\<not> isl ?r" by code_simp
  then obtain rq sdr seenr outr where r: "?r = Inr (rq, sdr, seenr, outr)" by (cases ?r) auto
  from empty_payload_result[where x = ?x and st = ?st and e = ?e and payloadAn = ?pa
      and sd = ?sd and seen = "{}" and out = "[]",
      THEN conjunct2, THEN conjunct2, THEN conjunct2, THEN conjunct1, rule_format, OF r]
  have c3: "\<exists>obj. x_AsObject ?x ?st (att_Type (ep_Request ?e)) = Some obj \<and>
         rq_CLIArgs rq =
           (if obj \<noteq> []
            then [bodyArg ?x ?st (newProtoBufAnalyzer (ep_Request ?e) (sd_PkgName ?sd)) ''message'']
            else []) @ map metadataArg (rq_Metadata rq)" .
  have v3: "rq_CLIArgs (fst (projr ?r)) = []" by code_simp
  have h4: "\<not> needInit ?x [] (att_Type (me_Result (ep_MethodExpr demo_noresult)))" by code_simp
  from empty_payload_result[where x = ?x and st = "[]" and e = demo_noresult
      and responseAn = "newProtoBufAnalyzer (rs_Message (ep_Response demo_noresult)) pbPkgName"
      and resultAn = "ResultAnalyzer (me_Result (ep_MethodExpr demo_noresult)) ''calc''"
      and hdrs = "[]" and trlrs = "[]" and sd = demo_sd and out = "[]",
      THEN conjunct2, THEN conjunct2, THEN conjunct2, THEN conjunct2, rule_format, OF h4]
  have c4: "\<And>svr. buildResponseConvertData ?x []
       (newProtoBufAnalyzer (rs_Message (ep_Response demo_noresult)) pbPkgName)
       (ResultAnalyzer (me_Result (ep_MethodExpr demo_noresult)) ''calc'')
       [] [] demo_noresult demo_sd [] svr = Inr (None, demo_sd, [])" .
  show ?thesis
    using h1 c1 h2 ok c2 okr c3 v3 h4 c4[of True] c4[of False] by (simp add: c r)
qed

text \<open>
  The claim C3 as it is stated fails for the client side: \<open>demo_ping\<close> has the payload
  \<^verbatim>\<open>expr.Empty\<close> and does not stream, the transform succeeds, and \<^verbatim>\<open>analyze\<close> gives its
  request data a nil server-side conversion and a client-side conversion that is not nil.
\<close>

theorem empty_payload_counterexample:
  "\<not> needInit (demo_ext True) [] (att_Type (me_Payload (ep_MethodExpr demo_ping))) \<and>
   \<not> x_IsStreaming (demo_ext True) (ep_MethodExpr demo_ping) \<and>
   (case analyze (demo_ext True) [] [] demo_pinger of
      Inl p \<Rightarrow> False
    | Inr (sd, st, out) \<Rightarrow>
        map (\<lambda>ed. (case rq_ServerConvert (ed_Request ed) of None \<Rightarrow> ''nil'' | Some c \<Rightarrow> cv_TgtName c,
                   case rq_ClientConvert (ed_Request ed) of None \<Rightarrow> ''nil'' | Some c \<Rightarrow> cv_TgtName c))
          (sd_Endpoints sd) = [(''nil'', ''pingRequest'')])"
  by code_simp

text \<open>
  Claim C5, as the code has it. \<^verbatim>\<open>buildStreamData\<close> returns a stream data of the role
  it is asked for, server or client, and \<^verbatim>\<open>MustClose\<close> is the flag of the server stream,
  respectively the client stream, of the method data of the endpoint, as it stands there.
  Its send conversion is there exactly when the send row of the table of spec 4.5 applies
  to the role and the transform of that row succeeds, and its receive conversion likewise
  for the receive row. The two rows of a role do not exclude each other: when the result
  and the streaming payload are both not \<^verbatim>\<open>expr.Empty\<close>, both rows apply to the server
  and both to the client, so each stream data gets both conversions (each nil only if its
  own transform fails). \<^verbatim>\<open>analyze\<close> sets exactly the two stream data of a streaming
  endpoint, the server one and the client one, and none for an endpoint that does not
  stream.
\<close>

theorem stream_data:
  "(\<forall>s sd' out'. buildStreamData x st e sd out svr = Inr (s, sd', out') \<longrightarrow>
      (\<exists>ed resultAn ss.
         Endpoint sd (ep_Name e) = Some ed \<and> resultAnalyzer x st e sd = Inr resultAn \<and>
         (if svr then md_ServerStream (ed_Method ed) else md_ClientStream (ed_Method ed)) = Some ss \<and>
         sm_Type s = (if svr then ''server'' else ''client'') \<and>
         sm_MustClose s = ss_MustClose ss \<and>
         (sm_SendConvert s \<noteq> None)
           = adapterBuilt x st (sendAdapter e sd (ed_Method ed) resultAn svr) True \<and>
         (sm_RecvConvert s \<noteq> None)
           = adapterBuilt x st (recvAdapter e sd (ed_Method ed) resultAn svr) False)) \<and>
   (\<forall>md resultAn role.
      att_Type (me_Result (ep_MethodExpr e)) \<noteq> Empty \<longrightarrow>
      att_Type (me_StreamingPayload (ep_MethodExpr e)) \<noteq> Empty \<longrightarrow>
      sendAdapter e sd md resultAn role \<noteq> None \<and> recvAdapter e sd md resultAn role \<noteq> None) \<and>
   (\<forall>st0 sd0 seen0 out0 e0 st' sd' seen' out'.
      analyzeEndpoint x (st0, sd0, seen0, out0) e0 = Inr (st', sd', seen', out') \<longrightarrow>
      sd_Endpoints sd' \<noteq> [] \<and>
      (if x_IsStreaming x (ep_MethodExpr e0)
       then \<exists>ss cs. ed_ServerStream (last (sd_Endpoints sd')) = Some ss \<and>
                    ed_ClientStream (last (sd_Endpoints sd')) = Some cs \<and>
                    sm_Type ss = ''server'' \<and> sm_Type cs = ''client''
       else ed_ServerStream (last (sd_Endpoints sd')) = None \<and>
            ed_ClientStream (last (sd_Endpoints sd')) = None))"
proof (intro conjI allI impI)
  fix s sd' out'
  assume "buildStreamData x st e sd out svr = Inr (s, sd', out')"
  then show "\<exists>ed resultAn ss.
         Endpoint sd (ep_Name e) = Some ed \<and> resultAnalyzer x st e sd = Inr resultAn \<and>
         (if svr then md_ServerStream (ed_Method ed) else md_ClientStream (ed_Method ed)) = Some ss \<and>
         sm_Type s = (if svr then ''server'' else ''client'') \<and>
         sm_MustClose s = ss_MustClose ss \<and>
         (sm_SendConvert s \<noteq> None)
           = adapterBuilt x st (sendAdapter e sd (ed_Method ed) resultAn svr) True \<and>
         (sm_RecvConvert s \<noteq> None)
           = adapterBuilt x st (recvAdapter e sd (ed_Method ed) resultAn svr) False"
    by (rule buildStreamData_table)
next
  fix md resultAn role
  assume "att_Type (me_Result (ep_MethodExpr e)) \<noteq> Empty"
    "att_Type (me_StreamingPayload (ep_MethodExpr e)) \<noteq> Empty"
  then show "sendAdapter e sd md resultAn role \<noteq> None"
    and "recvAdapter e sd md resultAn role \<noteq> None"
    by (simp_all add: sendAdapter_def recvAdapter_def)
next
  fix st0 sd0 seen0 out0 e0 st' sd' seen' out'
  assume a: "analyzeEndpoint x (st0, sd0, seen0, out0) e0 = Inr (st', sd', seen', out')"
  then show "sd_Endpoints sd' \<noteq> []"
    by (rule analyzeEndpoint_last) simp
  from a show "if x_IsStreaming x (ep_MethodExpr e0)
       then \<exists>ss cs. ed_ServerStream (last (sd_Endpoints sd')) = Some ss \<and>
                    ed_ClientStream (last (sd_Endpoints sd')) = Some cs \<and>
                    sm_Type ss = ''server'' \<and> sm_Type cs = ''client''
       else ed_ServerStream (last (sd_Endpoints sd')) = None \<and>
            ed_ClientStream (last (sd_Endpoints sd')) = None"
  proof (rule analyzeEndpoint_last, goal_cases)
    case (1 e sd md rq sd1 seen1 out1 rp sd2 out2 msgSch metSch sst cst)
    from makeProtoBufMessages_fields(2)[OF 1(1)] have m: "ep_MethodExpr e = ep_MethodExpr e0" .
    from 1(5) have l: "ed_ServerStream (last (sd_Endpoints sd')) = sst"
      "ed_ClientStream (last (sd_Endpoints sd')) = cst" by simp_all
    show ?case
    proof (cases "x_IsStreaming x (ep_MethodExpr e0)")
      case False
      with 1(6) m l show ?thesis by simp
    next
      case True
      with 1(6) m obtain ss sd4 out3 cs sd5 where
        a: "buildStreamData x st' e
          (sd2\<lparr>sd_Endpoints := sd_Endpoints sd2 @
             [newEndpointData x st' e sd2 md (buildErrorsData x st' e sd) rq rp msgSch metSch]\<rparr>)
          out2 True = Inr (ss, sd4, out3)"
        and b: "buildStreamData x st' e
          (updateLastEndpoint (\<lambda>ed. ed\<lparr>ed_ServerStream := Some ss\<rparr>) sd4) out3 False
          = Inr (cs, sd5, out')"
        and c: "sst = Some ss" "cst = Some cs" by auto
      from buildStreamData_table[OF a] have "sm_Type ss = ''server''" by auto
      moreover from buildStreamData_table[OF b] have "sm_Type cs = ''client''" by auto
      ultimately show ?thesis using True l c by simp
    qed
  qed
qed

theorem stream_data_witness:
  "\<not> isl (buildStreamData (demo_ext True) (fst demo_chat_run) (fst (snd (demo_made demo_chat)))
            (fst (snd demo_chat_run)) [] True) \<and>
   (\<exists>ed resultAn ss.
      Endpoint (fst (snd demo_chat_run)) (ep_Name (fst (snd (demo_made demo_chat)))) = Some ed \<and>
      resultAnalyzer (demo_ext True) (fst demo_chat_run) (fst (snd (demo_made demo_chat)))
        (fst (snd demo_chat_run)) = Inr resultAn \<and>
      md_ServerStream (ed_Method ed) = Some ss \<and>
      sm_MustClose (fst (projr (buildStreamData (demo_ext True) (fst demo_chat_run)
          (fst (snd (demo_made demo_chat))) (fst (snd demo_chat_run)) [] True))) = ss_MustClose ss \<and>
      (sm_SendConvert (fst (projr (buildStreamData (demo_ext True) (fst demo_chat_run)
          (fst (snd (demo_made demo_chat))) (fst (snd demo_chat_run)) [] True))) \<noteq> None)
        = adapterBuilt (demo_ext True) (fst demo_chat_run)
            (sendAdapter (fst (snd (demo_made demo_chat))) (fst (snd demo_chat_run))
               (ed_Method ed) resultAn True) True \<and>
      (sm_RecvConvert (fst (projr (buildStreamData (demo_ext True) (fst demo_chat_run)
          (fst (snd (demo_made demo_chat))) (fst (snd demo_chat_run)) [] True))) \<noteq> None)
        = adapterBuilt (demo_ext True) (fst demo_chat_run)
            (recvAdapter (fst (snd (demo_made demo_chat))) (fst (snd demo_chat_run))
               (ed_Method ed) resultAn True) False) \<and>
   att_Type (me_Result (ep_MethodExpr demo_chat)) \<noteq> Empty \<and>
   att_Type (me_StreamingPayload (ep_MethodExpr demo_chat)) \<noteq> Empty \<and>
   sendAdapter demo_chat demo_sd (the (x_Method (demo_ext True) (sd_Service demo_sd) ''chat''))
       (ResultAnalyzer (me_Result (ep_MethodExpr demo_chat)) ''calc'') True \<noteq> None \<and>
   recvAdapter demo_chat demo_sd (the (x_Method (demo_ext True) (sd_Service demo_sd) ''chat''))
       (ResultAnalyzer (me_Result (ep_MethodExpr demo_chat)) ''calc'') True \<noteq> None \<and>
   \<not> isl (analyzeEndpoint (demo_ext True) ([], demo_sd, {}, []) demo_chat) \<and>
   x_IsStreaming (demo_ext True) (ep_MethodExpr demo_chat) \<and>
   (\<exists>ss cs. ed_ServerStream (last (sd_Endpoints (fst (snd demo_chat_run)))) = Some ss \<and>
            ed_ClientStream (last (sd_Endpoints (fst (snd demo_chat_run)))) = Some cs \<and>
            sm_Type ss = ''server'' \<and> sm_Type cs = ''client'') \<and>
   \<not> isl (analyzeEndpoint (demo_ext True) ([], demo_sd, {}, []) demo_add) \<and>
   \<not> x_IsStreaming (demo_ext True) (ep_MethodExpr demo_add) \<and>
   ed_ServerStream (last (sd_Endpoints (fst (snd (projr
      (analyzeEndpoint (demo_ext True) ([], demo_sd, {}, []) demo_add)))))) = None"
proof -
  let ?x = "demo_ext True"
  let ?st = "fst demo_chat_run"
  let ?sd = "fst (snd demo_chat_run)"
  let ?e = "fst (snd (demo_made demo_chat))"
  let ?b = "buildStreamData ?x ?st ?e ?sd [] True"
  have ok: "\<not> isl ?b" by code_simp
  then obtain s sd' out' where b: "?b = Inr (s, sd', out')" by (cases ?b) auto
  from stream_data[where x = ?x and st = ?st and e = ?e and sd = ?sd and out = "[]"
      and svr = True, THEN conjunct1, rule_format, OF b]
  have c1: "\<exists>ed resultAn ss.
      Endpoint ?sd (ep_Name ?e) = Some ed \<and> resultAnalyzer ?x ?st ?e ?sd = Inr resultAn \<and>
      md_ServerStream (ed_Method ed) = Some ss \<and>
      sm_MustClose s = ss_MustClose ss \<and>
      (sm_SendConvert s \<noteq> None)
        = adapterBuilt ?x ?st (sendAdapter ?e ?sd (ed_Method ed) resultAn True) True \<and>
      (sm_RecvConvert s \<noteq> None)
        = adapterBuilt ?x ?st (recvAdapter ?e ?sd (ed_Method ed) resultAn True) False"
    by auto
  have h1: "att_Type (me_Result (ep_MethodExpr demo_chat)) \<noteq> Empty" by code_simp
  have h2: "att_Type (me_StreamingPayload (ep_MethodExpr demo_chat)) \<noteq> Empty" by code_simp
  from stream_data[where e = demo_chat and sd = demo_sd,
      THEN conjunct2, THEN conjunct1, rule_format, OF h1 h2]
  have c2: "sendAdapter demo_chat demo_sd (the (x_Method (demo_ext True) (sd_Service demo_sd) ''chat''))
       (ResultAnalyzer (me_Result (ep_MethodExpr demo_chat)) ''calc'') True \<noteq> None"
    "recvAdapter demo_chat demo_sd (the (x_Method (demo_ext True) (sd_Service demo_sd) ''chat''))
       (ResultAnalyzer (me_Result (ep_MethodExpr demo_chat)) ''calc'') True \<noteq> None" by blast+
  let ?a = "analyzeEndpoint ?x ([], demo_sd, {}, []) demo_chat"
  have oka: "\<not> isl ?a" by code_simp
  then obtain st1 sd1 seen1 out1 where a: "?a = Inr (st1, sd1, seen1, out1)" by (cases ?a) auto
  have run: "demo_chat_run = (st1, sd1, seen1, out1)" by (simp add: demo_chat_run_def a)
  have h3: "x_IsStreaming ?x (ep_MethodExpr demo_chat)" by code_simp
  from stream_data[where x = ?x and e = demo_chat and sd = demo_sd,
      THEN conjunct2, THEN conjunct2, rule_format, OF a] h3
  have c3: "\<exists>ss cs. ed_ServerStream (last (sd_Endpoints sd1)) = Some ss \<and>
            ed_ClientStream (last (sd_Endpoints sd1)) = Some cs \<and>
            sm_Type ss = ''server'' \<and> sm_Type cs = ''client''" by simp
  let ?n = "analyzeEndpoint ?x ([], demo_sd, {}, []) demo_add"
  have okn: "\<not> isl ?n" by code_simp
  then obtain st2 sd2 seen2 out2 where n: "?n = Inr (st2, sd2, seen2, out2)" by (cases ?n) auto
  have h4: "\<not> x_IsStreaming ?x (ep_MethodExpr demo_add)" by code_simp
  from stream_data[where x = ?x and e = demo_chat and sd = demo_sd,
      THEN conjunct2, THEN conjunct2, rule_format, OF n] h4
  have c4: "ed_ServerStream (last (sd_Endpoints sd2)) = None" by simp
  note b' = b[unfolded run fst_conv snd_conv]
  show ?thesis
    using ok c1 h1 h2 c2 oka h3 c3 okn h4 c4 unfolding run n a fst_conv snd_conv
    by (simp add: b')
qed

text \<open>
  The claim C5 as it is stated fails where it gives each stream data exactly one adapter:
  the chat endpoint streams in both directions, its streaming payload and its result are
  not \<^verbatim>\<open>expr.Empty\<close>, and \<^verbatim>\<open>analyze\<close> gives the server stream and the client stream both
  a send and a receive conversion.
\<close>

theorem stream_data_counterexample:
  "x_IsStreaming (demo_ext True) (ep_MethodExpr demo_chat) \<and>
   x_IsPayloadStreaming (demo_ext True) (ep_MethodExpr demo_chat) \<and>
   att_Type (me_StreamingPayload (ep_MethodExpr demo_chat)) \<noteq> Empty \<and>
   att_Type (me_Result (ep_MethodExpr demo_chat)) \<noteq> Empty \<and>
   (case analyze (demo_ext True) [] [] demo_chatter of
      Inl p \<Rightarrow> False
    | Inr (sd, st, out) \<Rightarrow>
        map (\<lambda>ed. (case ed_ServerStream ed of
                     None \<Rightarrow> []
                   | Some s \<Rightarrow>
                       [sm_Type s,
                        case sm_SendConvert s of None \<Rightarrow> ''nil'' | Some c \<Rightarrow> cv_TgtName c,
                        case sm_RecvConvert s of None \<Rightarrow> ''nil'' | Some c \<Rightarrow> cv_SrcName c],
                   case ed_ClientStream ed of
                     None \<Rightarrow> []
                   | Some s \<Rightarrow>
                       [sm_Type s,
                        case sm_SendConvert s of None \<Rightarrow> ''nil'' | Some c \<Rightarrow> cv_TgtName c,
                        case sm_RecvConvert s of None \<Rightarrow> ''nil'' | Some c \<Rightarrow> cv_SrcName c]))
          (sd_Endpoints sd)
        = [([''server'', ''chatResponse'', ''chatStreamingRequest''],
            [''client'', ''chatStreamingRequest'', ''chatResponse''])])"
  by code_simp

end
